theory Spec2Isabelle
  imports Complex_Main
begin

section \<open>The shipping relay\<close>

text \<open>
  The repository holds four versions of one Express server that relays between a shipping
  provider (Shippo) and a payment processor (Stripe). Each has a rate route
  \<open>GET /api/shipping/:ref\<close>, a checkout route \<open>POST /api/checkout\<close> and a webhook
  \<open>POST /webhook/stripe\<close>:
  \<^item> server.js (handlers named \<open>_server\<close> below);
  \<^item> a second file with the same routes, more checks and a health route (\<open>_part0\<close>);
  \<^item> a file that calls the provider through its SDK (\<open>_sdk\<close>);
  \<^item> a file with a Zapier route, in which a shipment is the session (\<open>_zapier\<close>).
  The last two are the two halves of the third source file. Every handler is modelled as
  written: a function from the request and the history of outbound calls to the response
  (or the error that rejects the handler's promise) and the new history. What the
  provider, the processor and the signature check of the processor's library answer is a
  parameter, the \<open>world\<close>. Logging is not modelled.
\<close>

section \<open>JavaScript values\<close>

text \<open>
  A JavaScript value of a JSON document is modelled by \<open>json\<close>; an object is the list of
  its own properties in insertion order, read with the first entry of a key. A finite
  number is a double, given by its exact value as a rational; the two zeros are one
  (nothing in the program tells them apart). A string is its sequence of bytes
  (JavaScript counts UTF-16 units; the two agree on ASCII).
\<close>

datatype jsnum = NaN | Fin rat | PInf | NInf

datatype json =
    JUndefined
  | JNull
  | JBool bool
  | JNum jsnum
  | JStr string
  | JArr "json list"
  | JObj "(string \<times> json) list"

text \<open>
  What a handler can throw, and what the promise of an outbound call can reject with. The
  message of a TypeError or SyntaxError is the engine's wording; the model keeps the kind
  of the error and a short text.
\<close>

datatype error =
    TypeError string
  | SyntaxError
  | NetworkError string
  | ShippoError string
  | StripeError string

text \<open>\<open>err.message\<close>.\<close>

fun message :: "error \<Rightarrow> string" where
  "message (TypeError m) = m"
| "message SyntaxError = ''Unexpected token in JSON''"
| "message (NetworkError m) = m"
| "message (ShippoError m) = m"
| "message (StripeError m) = m"

subsection \<open>Property reads, truthiness, strict equality\<close>

text \<open>
  \<open>v.k\<close> for the keys the source reads (none of them is inherited from a prototype,
  but \<open>length\<close> of an array or a string): reading a property of \<open>undefined\<close> or
  \<open>null\<close> throws a TypeError.
\<close>

fun get_prop :: "json \<Rightarrow> string \<Rightarrow> error + json" where
  "get_prop JUndefined k = Inl (TypeError (''Cannot read properties of undefined (reading '' @ k @ '')''))"
| "get_prop JNull k = Inl (TypeError (''Cannot read properties of null (reading '' @ k @ '')''))"
| "get_prop (JObj kvs) k = Inr (case map_of kvs k of None \<Rightarrow> JUndefined | Some v \<Rightarrow> v)"
| "get_prop (JArr xs) k = Inr (if k = ''length'' then JNum (Fin (of_nat (length xs))) else JUndefined)"
| "get_prop (JStr s) k = Inr (if k = ''length'' then JNum (Fin (of_nat (length s))) else JUndefined)"
| "get_prop (JBool b) k = Inr JUndefined"
| "get_prop (JNum n) k = Inr JUndefined"

text \<open>\<open>v?.k\<close>: \<open>undefined\<close> when \<open>v\<close> is \<open>undefined\<close> or \<open>null\<close>.\<close>

fun get_opt :: "json \<Rightarrow> string \<Rightarrow> json" where
  "get_opt JUndefined k = JUndefined"
| "get_opt JNull k = JUndefined"
| "get_opt v k = (case get_prop v k of Inl e \<Rightarrow> JUndefined | Inr x \<Rightarrow> x)"

text \<open>\<open>v[0]\<close>.\<close>

fun index0 :: "json \<Rightarrow> error + json" where
  "index0 JUndefined = Inl (TypeError ''Cannot read properties of undefined (reading 0)'')"
| "index0 JNull = Inl (TypeError ''Cannot read properties of null (reading 0)'')"
| "index0 (JArr xs) = Inr (case xs of [] \<Rightarrow> JUndefined | x # _ \<Rightarrow> x)"
| "index0 (JStr s) = Inr (case s of [] \<Rightarrow> JUndefined | c # _ \<Rightarrow> JStr [c])"
| "index0 (JObj kvs) = Inr (case map_of kvs ''0'' of None \<Rightarrow> JUndefined | Some v \<Rightarrow> v)"
| "index0 (JBool b) = Inr JUndefined"
| "index0 (JNum n) = Inr JUndefined"

text \<open>ToBoolean.\<close>

fun truthy :: "json \<Rightarrow> bool" where
  "truthy JUndefined = False"
| "truthy JNull = False"
| "truthy (JBool b) = b"
| "truthy (JNum n) = (n \<noteq> NaN \<and> n \<noteq> Fin 0)"
| "truthy (JStr s) = (s \<noteq> [])"
| "truthy (JArr xs) = True"
| "truthy (JObj kvs) = True"

text \<open>
  \<open>a === b\<close> for two values that come from two different documents: primitives are
  compared by value (\<open>NaN\<close> equals nothing), and two objects or arrays are different
  references.
\<close>

fun strict_eq :: "json \<Rightarrow> json \<Rightarrow> bool" where
  "strict_eq JUndefined JUndefined = True"
| "strict_eq JNull JNull = True"
| "strict_eq (JBool a) (JBool b) = (a = b)"
| "strict_eq (JNum a) (JNum b) = (a \<noteq> NaN \<and> a = b)"
| "strict_eq (JStr a) (JStr b) = (a = b)"
| "strict_eq a b = False"

section \<open>Strings made from values\<close>

text \<open>The decimal digits of a natural number, as a template literal prints a status code.\<close>

fun decimal :: "nat \<Rightarrow> string" where
  "decimal n =
     (if n < 10 then [''0123456789'' ! n]
      else decimal (n div 10) @ [''0123456789'' ! (n mod 10)])"

declare decimal.simps [simp del]

definition join :: "string \<Rightarrow> string list \<Rightarrow> string" where
  "join sep xs = (case xs of [] \<Rightarrow> [] | y # ys \<Rightarrow> foldl (\<lambda>acc x. acc @ sep @ x) y ys)"

text \<open>
  ToString, as a template literal applies it. The text of a number is taken from the
  runtime (the first argument), everything else is fixed by the language.
\<close>

fun ToString :: "(jsnum \<Rightarrow> string) \<Rightarrow> json \<Rightarrow> string" where
  "ToString f JUndefined = ''undefined''"
| "ToString f JNull = ''null''"
| "ToString f (JBool b) = (if b then ''true'' else ''false'')"
| "ToString f (JNum n) = f n"
| "ToString f (JStr s) = s"
| "ToString f (JObj kvs) = ''[object Object]''"
| "ToString f (JArr xs) =
     join '','' (map (\<lambda>x. if x = JUndefined \<or> x = JNull then [] else ToString f x) xs)"

text \<open>\<open>JSON.stringify\<close>: the quoting of a string, then the text of a value.\<close>

definition hex_digit :: "nat \<Rightarrow> char" where
  "hex_digit n = ''0123456789abcdef'' ! (n mod 16)"

definition escape_char :: "char \<Rightarrow> string" where
  "escape_char c =
     (if c = CHR 0x22 then [CHR 0x5C, CHR 0x22]
      else if c = CHR 0x5C then [CHR 0x5C, CHR 0x5C]
      else if c = CHR 0x08 then [CHR 0x5C, CHR ''b'']
      else if c = CHR 0x0C then [CHR 0x5C, CHR ''f'']
      else if c = CHR 0x0A then [CHR 0x5C, CHR ''n'']
      else if c = CHR 0x0D then [CHR 0x5C, CHR ''r'']
      else if c = CHR 0x09 then [CHR 0x5C, CHR ''t'']
      else if (of_char c :: nat) < 32 then
        [CHR 0x5C, CHR ''u'', CHR ''0'', CHR ''0'', hex_digit (of_char c div 16), hex_digit (of_char c)]
      else [c])"

definition quote :: "string \<Rightarrow> string" where
  "quote s = [CHR 0x22] @ concat (map escape_char s) @ [CHR 0x22]"

text \<open>
  The text of a value inside a document: \<open>None\<close> where \<open>JSON.stringify\<close> gives
  \<open>undefined\<close>. A property whose value has no text is left out, an array element
  without text is \<open>null\<close>, and so is a number that is not finite.
\<close>

fun JSON_stringify :: "(jsnum \<Rightarrow> string) \<Rightarrow> json \<Rightarrow> string option" where
  "JSON_stringify f JUndefined = None"
| "JSON_stringify f JNull = Some ''null''"
| "JSON_stringify f (JBool b) = Some (if b then ''true'' else ''false'')"
| "JSON_stringify f (JNum n) = Some (case n of Fin q \<Rightarrow> f n | _ \<Rightarrow> ''null'')"
| "JSON_stringify f (JStr s) = Some (quote s)"
| "JSON_stringify f (JArr xs) =
     Some (''['' @ join '','' (map (\<lambda>x. case JSON_stringify f x of None \<Rightarrow> ''null'' | Some t \<Rightarrow> t) xs) @ '']'')"
| "JSON_stringify f (JObj kvs) =
     Some (''{'' @ join '',''
        (concat (map (\<lambda>(k, v). case JSON_stringify f v of None \<Rightarrow> [] | Some t \<Rightarrow> [quote k @ '':'' @ t]) kvs))
        @ ''}'')"

section \<open>The outside world\<close>

text \<open>
  A handler is a sequence of outbound calls. The world answers each call; the answer may
  depend on the calls made before (the history), so that a provider whose data change
  between two requests is covered. Every outbound call is appended to the history.
  The world also holds the engine's arithmetic, which the program only calls:
  \<open>Number(v)\<close> (also the conversion that \<open>v * 100\<close> applies to \<open>v\<close>), the product of
  two numbers, \<open>Math.round\<close>, and the text of a number.
\<close>

record fetch_options =
  opt_method :: "string option"
  opt_body :: "string option"
  opt_headers :: "(string \<times> string) list option"

text \<open>
  The response of \<open>fetch\<close>: its status, the body as \<open>res.text()\<close> reads it and as
  \<open>res.json()\<close> parses it (\<open>None\<close>: the body is not a JSON document).
\<close>

record http_response =
  status :: nat
  text_of :: string
  json_of :: "json option"

definition ok :: "http_response \<Rightarrow> bool" where
  "ok res = (200 \<le> status res \<and> status res \<le> 299)"

datatype call =
    Fetch string fetch_options
  | SessionsCreate json
  | TransactionCreate json
  | OrderRetrieve json
  | ShipmentRetrieve json

text \<open>\<open>req.body\<close> of the webhook route: the raw bytes, or what an earlier parser left.\<close>

datatype payload = Buffer string | Parsed json

record world =
  fetch :: "call list \<Rightarrow> string \<Rightarrow> fetch_options \<Rightarrow> error + http_response"
  sessions_create :: "call list \<Rightarrow> json \<Rightarrow> error + json"
  transaction_create :: "call list \<Rightarrow> json \<Rightarrow> error + json"
  order_retrieve :: "call list \<Rightarrow> json \<Rightarrow> error + json"
  shipment_retrieve :: "call list \<Rightarrow> json \<Rightarrow> error + json"
  constructEvent :: "payload \<Rightarrow> json \<Rightarrow> string option \<Rightarrow> error + json"
  process_env :: "string \<Rightarrow> string option"
  Number :: "json \<Rightarrow> jsnum"
  multiply :: "jsnum \<Rightarrow> jsnum \<Rightarrow> jsnum"
  Math_round :: "jsnum \<Rightarrow> jsnum"
  Number_toString :: "jsnum \<Rightarrow> string"

text \<open>
  An asynchronous computation: from the history to a value or a thrown error, and the
  history after it.
\<close>

type_synonym 'a io = "call list \<Rightarrow> (error + 'a) \<times> call list"

definition io_return :: "'a \<Rightarrow> 'a io" where
  "io_return x h = (Inr x, h)"

definition io_throw :: "error \<Rightarrow> 'a io" where
  "io_throw e h = (Inl e, h)"

definition io_lift :: "error + 'a \<Rightarrow> 'a io" where
  "io_lift r h = (r, h)"

definition io_bind :: "'a io \<Rightarrow> ('a \<Rightarrow> 'b io) \<Rightarrow> 'b io" where
  "io_bind m k h = (case m h of (Inl e, h') \<Rightarrow> (Inl e, h') | (Inr x, h') \<Rightarrow> k x h')"

text \<open>\<open>try { m } catch (err) { c err }\<close>.\<close>

definition io_catch :: "'a io \<Rightarrow> (error \<Rightarrow> 'a io) \<Rightarrow> 'a io" where
  "io_catch m c h = (case m h of (Inl e, h') \<Rightarrow> c e h' | (Inr x, h') \<Rightarrow> (Inr x, h'))"

definition do_fetch :: "world \<Rightarrow> string \<Rightarrow> fetch_options \<Rightarrow> http_response io" where
  "do_fetch W url init h = (fetch W h url init, h @ [Fetch url init])"

definition do_sessions_create :: "world \<Rightarrow> json \<Rightarrow> json io" where
  "do_sessions_create W params h = (sessions_create W h params, h @ [SessionsCreate params])"

definition do_transaction_create :: "world \<Rightarrow> json \<Rightarrow> json io" where
  "do_transaction_create W params h = (transaction_create W h params, h @ [TransactionCreate params])"

definition do_order_retrieve :: "world \<Rightarrow> json \<Rightarrow> json io" where
  "do_order_retrieve W ref h = (order_retrieve W h ref, h @ [OrderRetrieve ref])"

definition do_shipment_retrieve :: "world \<Rightarrow> json \<Rightarrow> json io" where
  "do_shipment_retrieve W ref h = (shipment_retrieve W h ref, h @ [ShipmentRetrieve ref])"

text \<open>An environment variable inside a template literal.\<close>

definition env_text :: "world \<Rightarrow> string \<Rightarrow> string" where
  "env_text W k = (case process_env W k of None \<Rightarrow> ''undefined'' | Some v \<Rightarrow> v)"

section \<open>The shipping provider client\<close>

definition SHIPPO_BASE :: string where
  "SHIPPO_BASE = ''https://api.goshippo.com''"

text \<open>Object spread: a key already present keeps its place and takes the new value.\<close>

fun assign :: "(string \<times> string) list \<Rightarrow> string \<times> string \<Rightarrow> (string \<times> string) list" where
  "assign [] kv = [kv]"
| "assign ((k', v') # rest) kv = (if k' = fst kv then (k', snd kv) # rest else (k', v') # assign rest kv)"

definition spread :: "(string \<times> string) list \<Rightarrow> (string \<times> string) list \<Rightarrow> (string \<times> string) list" where
  "spread base extra = foldl assign base extra"

definition shippo_init :: "world \<Rightarrow> fetch_options \<Rightarrow> fetch_options" where
  "shippo_init W options =
     options\<lparr>opt_headers :=
       Some (spread
         [(''Authorization'', ''ShippoToken '' @ env_text W ''SHIPPO_API_KEY''),
          (''Content-Type'', ''application/json'')]
         (case opt_headers options of None \<Rightarrow> [] | Some hs \<Rightarrow> hs))\<rparr>"

text \<open>\<open>shippoFetch\<close> of server.js; the same text is in the second file.\<close>

definition shippoFetch :: "world \<Rightarrow> string \<Rightarrow> fetch_options \<Rightarrow> json io" where
  "shippoFetch W path options =
     io_bind (do_fetch W (SHIPPO_BASE @ path) (shippo_init W options)) (\<lambda>res.
       if \<not> ok res then
         io_throw (ShippoError (''Shippo error '' @ decimal (status res) @ '': '' @ text_of res))
       else (case json_of res of None \<Rightarrow> io_throw SyntaxError | Some data \<Rightarrow> io_return data))"

text \<open>
  \<open>shippoFetch\<close> of the file with the Zapier route: the body is parsed first, and the
  error is the parsed body, serialised again.
\<close>

definition shippoFetch_zapier :: "world \<Rightarrow> string \<Rightarrow> fetch_options \<Rightarrow> json io" where
  "shippoFetch_zapier W path options =
     io_bind (do_fetch W (SHIPPO_BASE @ path) (shippo_init W options)) (\<lambda>res.
       (case json_of res of
          None \<Rightarrow> io_throw SyntaxError
        | Some data \<Rightarrow>
            if \<not> ok res then
              io_throw (ShippoError (case JSON_stringify (Number_toString W) data of None \<Rightarrow> [] | Some t \<Rightarrow> t))
            else io_return data))"

definition no_options :: fetch_options where
  "no_options = \<lparr>opt_method = None, opt_body = None, opt_headers = None\<rparr>"

definition post_json :: "world \<Rightarrow> json \<Rightarrow> fetch_options" where
  "post_json W v =
     \<lparr>opt_method = Some ''POST'', opt_body = JSON_stringify (Number_toString W) v, opt_headers = None\<rparr>"

section \<open>Requests, responses and array methods\<close>

datatype body = Json json | Text string

record response =
  code :: nat
  content :: body

text \<open>\<open>res.json(v)\<close> and \<open>res.status(c).json(v)\<close>; \<open>res.status(c).send(t)\<close>.\<close>

definition res_json :: "nat \<Rightarrow> json \<Rightarrow> response" where
  "res_json c v = \<lparr>code = c, content = Json v\<rparr>"

definition res_send :: "nat \<Rightarrow> string \<Rightarrow> response" where
  "res_send c t = \<lparr>code = c, content = Text t\<rparr>"

record webhook_request =
  stripe_signature :: json
  raw_body :: payload

definition and_then :: "error + 'a \<Rightarrow> ('a \<Rightarrow> error + 'b) \<Rightarrow> error + 'b" where
  "and_then r k = (case r of Inl e \<Rightarrow> Inl e | Inr x \<Rightarrow> k x)"

fun map_result :: "(json \<Rightarrow> error + json) \<Rightarrow> json list \<Rightarrow> error + json list" where
  "map_result f [] = Inr []"
| "map_result f (x # xs) =
     (case f x of
        Inl e \<Rightarrow> Inl e
      | Inr y \<Rightarrow> (case map_result f xs of Inl e \<Rightarrow> Inl e | Inr ys \<Rightarrow> Inr (y # ys)))"

fun find_first :: "(json \<Rightarrow> error + bool) \<Rightarrow> json list \<Rightarrow> error + json" where
  "find_first p [] = Inr JUndefined"
| "find_first p (x # xs) =
     (case p x of Inl e \<Rightarrow> Inl e | Inr b \<Rightarrow> if b then Inr x else find_first p xs)"

text \<open>
  \<open>v.map(f)\<close> and \<open>v.find(p)\<close>: only an array has the method; no value of a JSON
  document is a function.
\<close>

fun array_map :: "(json \<Rightarrow> error + json) \<Rightarrow> json \<Rightarrow> error + json" where
  "array_map f (JArr xs) = (case map_result f xs of Inl e \<Rightarrow> Inl e | Inr ys \<Rightarrow> Inr (JArr ys))"
| "array_map f JUndefined = Inl (TypeError ''Cannot read properties of undefined (reading map)'')"
| "array_map f JNull = Inl (TypeError ''Cannot read properties of null (reading map)'')"
| "array_map f v = Inl (TypeError ''map is not a function'')"

fun array_find :: "(json \<Rightarrow> error + bool) \<Rightarrow> json \<Rightarrow> error + json" where
  "array_find p (JArr xs) = find_first p xs"
| "array_find p JUndefined = Inl (TypeError ''Cannot read properties of undefined (reading find)'')"
| "array_find p JNull = Inl (TypeError ''Cannot read properties of null (reading find)'')"
| "array_find p v = Inl (TypeError ''find is not a function'')"

section \<open>Rate inquiry\<close>

text \<open>The arrow function of \<open>shipment.rates.map\<close>, the same in every file.\<close>

definition normalize_rate :: "world \<Rightarrow> json \<Rightarrow> error + json" where
  "normalize_rate W r =
     and_then (get_prop r ''object_id'') (\<lambda>object_id.
     and_then (get_prop r ''provider'') (\<lambda>provider.
     and_then (get_prop r ''servicelevel'') (\<lambda>servicelevel.
     and_then (get_prop servicelevel ''name'') (\<lambda>name.
     and_then (get_prop r ''amount'') (\<lambda>amount.
     and_then (get_prop r ''estimated_days'') (\<lambda>estimated_days.
       Inr (JObj [(''rate_id'', object_id),
                  (''carrier'', provider),
                  (''service'', name),
                  (''amount'', JNum (Number W amount)),
                  (''eta'', estimated_days)])))))))"

definition extract_rates :: "world \<Rightarrow> json \<Rightarrow> error + json" where
  "extract_rates W shipment = and_then (get_prop shipment ''rates'') (array_map (normalize_rate W))"

text \<open>\<open>GET /api/shipping/:orderToken\<close> of server.js.\<close>

definition get_shipping_server :: "world \<Rightarrow> string \<Rightarrow> response io" where
  "get_shipping_server W orderToken =
     io_catch
       (io_bind (shippoFetch W (''/orders/'' @ orderToken) no_options) (\<lambda>order.
        io_bind (io_lift (get_prop order ''shipments'')) (\<lambda>shipments.
        io_bind (io_lift (if \<not> truthy shipments then Inr True
                          else and_then (get_prop shipments ''length'') (\<lambda>n. Inr (\<not> truthy n)))) (\<lambda>none.
          if none then io_return (res_json 404 (JObj [(''error'', JStr ''No shipment found'')]))
          else
            io_bind (io_lift (index0 shipments)) (\<lambda>first.
            io_bind (shippoFetch W (''/shipments/'' @ ToString (Number_toString W) first) no_options) (\<lambda>shipment.
            io_bind (io_lift (extract_rates W shipment)) (\<lambda>rates.
            io_bind (io_lift (get_prop order ''to_address'')) (\<lambda>to_address.
              io_return (res_json 200
                (JObj [(''customer'',
                         JObj [(''name'', get_opt to_address ''name''),
                               (''city'', get_opt to_address ''city''),
                               (''state'', get_opt to_address ''state'')]),
                       (''rates'', rates)]))))))))))
       (\<lambda>err. io_return (res_json 500 (JObj [(''error'', JStr ''Failed to load shipping'')])))"

text \<open>The same route in the second file: other status, other messages, a default name.\<close>

definition get_shipping_part0 :: "world \<Rightarrow> string \<Rightarrow> response io" where
  "get_shipping_part0 W orderToken =
     io_catch
       (io_bind (shippoFetch W (''/orders/'' @ orderToken) no_options) (\<lambda>order.
        io_bind (io_lift (get_prop order ''shipments'')) (\<lambda>shipments.
        io_bind (io_lift (if \<not> truthy shipments then Inr True
                          else and_then (get_prop shipments ''length'')
                                 (\<lambda>n. Inr (strict_eq n (JNum (Fin 0)))))) (\<lambda>none.
          if none then
            io_return (res_json 400
              (JObj [(''error'', JStr ''Order has no shipments. Ensure parcels were added.'')]))
          else
            io_bind (io_lift (index0 shipments)) (\<lambda>shipmentId.
            io_bind (shippoFetch W (''/shipments/'' @ ToString (Number_toString W) shipmentId) no_options) (\<lambda>shipment.
            io_bind (io_lift (extract_rates W shipment)) (\<lambda>rates.
            io_bind (io_lift (get_prop order ''to_address'')) (\<lambda>to_address.
              io_return (res_json 200
                (JObj [(''customer'',
                         JObj [(''name'', if truthy (get_opt to_address ''name'')
                                          then get_opt to_address ''name'' else JStr ''Customer''),
                               (''city'', get_opt to_address ''city''),
                               (''state'', get_opt to_address ''state'')]),
                       (''rates'', rates)]))))))))))
       (\<lambda>err. io_return (res_json 500
          (JObj [(''error'', JStr ''Failed to load shipping rates''),
                 (''details'', JStr (message err))])))"

text \<open>The route of the file that uses the provider's SDK.\<close>

definition get_shipping_sdk :: "world \<Rightarrow> string \<Rightarrow> response io" where
  "get_shipping_sdk W orderToken =
     io_catch
       (io_bind (do_order_retrieve W (JStr orderToken)) (\<lambda>order.
        io_bind (io_lift (and_then (get_prop order ''shipments'') index0)) (\<lambda>first.
        io_bind (do_shipment_retrieve W first) (\<lambda>shipment.
        io_bind (io_lift (extract_rates W shipment)) (\<lambda>rates.
        io_bind (io_lift (get_prop order ''to_address'')) (\<lambda>to_address.
        io_bind (io_lift (get_prop to_address ''name'')) (\<lambda>name.
        io_bind (io_lift (get_prop to_address ''city'')) (\<lambda>city.
        io_bind (io_lift (get_prop to_address ''state'')) (\<lambda>state.
          io_return (res_json 200
            (JObj [(''customer'', JObj [(''name'', name), (''city'', city), (''state'', state)]),
                   (''rates'', rates)])))))))))))
       (\<lambda>err. io_return (res_json 500 (JObj [(''error'', JStr ''Failed to load shipping'')])))"

text \<open>\<open>GET /api/shipping/:sessionId\<close> of the file with the Zapier route.\<close>

definition get_shipping_zapier :: "world \<Rightarrow> string \<Rightarrow> response io" where
  "get_shipping_zapier W sessionId =
     io_catch
       (io_bind (shippoFetch_zapier W (''/shipments/'' @ sessionId) no_options) (\<lambda>shipment.
        io_bind (io_lift (extract_rates W shipment)) (\<lambda>rates.
          io_return (res_json 200 (JObj [(''rates'', rates)])))))
       (\<lambda>err. io_return (res_json 500 (JObj [(''error'', JStr (message err))])))"

section \<open>Checkout\<close>

text \<open>The dash of the product name, in UTF-8, and what the SDK file holds in its place.\<close>

definition en_dash :: string where
  "en_dash = [CHR 0xE2, CHR 0x80, CHR 0x93]"

definition garbled_dash :: string where
  "garbled_dash = [CHR 0xC3, CHR 0xA2, CHR 0xE2, CHR 0x82, CHR 0xAC, CHR 0xE2, CHR 0x80, CHR 0x9C]"

text \<open>
  \<open>Math.round(a * 100)\<close>, where the product converts \<open>a\<close> as \<open>Number\<close> does, so that
  \<open>Math.round(Number(a) * 100)\<close> of the second file is the same number.
\<close>

definition unit_amount_of :: "world \<Rightarrow> json \<Rightarrow> json" where
  "unit_amount_of W a = JNum (Math_round W (multiply W (Number W a) (Fin 100)))"

text \<open>The predicate of \<open>shipment.rates.find\<close>.\<close>

definition rate_matches :: "json \<Rightarrow> json \<Rightarrow> error + bool" where
  "rate_matches rateId r = and_then (get_prop r ''object_id'') (\<lambda>object_id. Inr (strict_eq object_id rateId))"

text \<open>The argument of \<open>stripe.checkout.sessions.create\<close> in server.js.\<close>

definition session_params_server :: "world \<Rightarrow> json \<Rightarrow> json \<Rightarrow> error + json" where
  "session_params_server W rate rateId =
     and_then (get_prop rate ''provider'') (\<lambda>provider.
     and_then (get_prop rate ''servicelevel'') (\<lambda>servicelevel.
     and_then (get_prop servicelevel ''name'') (\<lambda>name.
     and_then (get_prop rate ''amount'') (\<lambda>amount.
       Inr (JObj
         [(''mode'', JStr ''payment''),
          (''line_items'', JArr [JObj
             [(''price_data'', JObj
                [(''currency'', JStr ''usd''),
                 (''product_data'', JObj
                    [(''name'', JStr (''Shipping '' @ en_dash @ '' '' @ ToString (Number_toString W) provider
                                      @ '' '' @ ToString (Number_toString W) name))]),
                 (''unit_amount'', unit_amount_of W amount)]),
              (''quantity'', JNum (Fin 1))]]),
          (''metadata'', JObj [(''rateId'', rateId)]),
          (''success_url'', JStr (env_text W ''BASE_URL'' @ ''/shipping-success.html'')),
          (''cancel_url'', JStr (env_text W ''BASE_URL'' @ ''/shipping-cancelled.html''))])))))"

text \<open>\<open>POST /api/checkout\<close> of server.js.\<close>

definition post_checkout_server :: "world \<Rightarrow> json \<Rightarrow> response io" where
  "post_checkout_server W req_body =
     io_catch
       (io_bind (io_lift (get_prop req_body ''orderToken'')) (\<lambda>orderToken.
        io_bind (io_lift (get_prop req_body ''rateId'')) (\<lambda>rateId.
        io_bind (shippoFetch W (''/orders/'' @ ToString (Number_toString W) orderToken) no_options) (\<lambda>order.
        io_bind (io_lift (and_then (get_prop order ''shipments'') index0)) (\<lambda>first.
        io_bind (shippoFetch W (''/shipments/'' @ ToString (Number_toString W) first) no_options) (\<lambda>shipment.
        io_bind (io_lift (and_then (get_prop shipment ''rates'') (array_find (rate_matches rateId)))) (\<lambda>rate.
          if \<not> truthy rate then io_return (res_json 400 (JObj [(''error'', JStr ''Invalid rate'')]))
          else
            io_bind (io_lift (session_params_server W rate rateId)) (\<lambda>params.
            io_bind (do_sessions_create W params) (\<lambda>session.
            io_bind (io_lift (get_prop session ''url'')) (\<lambda>url.
              io_return (res_json 200 (JObj [(''url'', url)]))))))))))))
       (\<lambda>err. io_return (res_json 500 (JObj [(''error'', JStr ''Checkout failed'')])))"

text \<open>The second file: the required fields are checked first, and cards are the only method.\<close>

definition session_params_part0 :: "world \<Rightarrow> json \<Rightarrow> json \<Rightarrow> error + json" where
  "session_params_part0 W rate rateId =
     and_then (get_prop rate ''provider'') (\<lambda>provider.
     and_then (get_prop rate ''servicelevel'') (\<lambda>servicelevel.
     and_then (get_prop servicelevel ''name'') (\<lambda>name.
     and_then (get_prop rate ''amount'') (\<lambda>amount.
       Inr (JObj
         [(''mode'', JStr ''payment''),
          (''payment_method_types'', JArr [JStr ''card'']),
          (''line_items'', JArr [JObj
             [(''price_data'', JObj
                [(''currency'', JStr ''usd''),
                 (''product_data'', JObj
                    [(''name'', JStr (''Shipping '' @ en_dash @ '' '' @ ToString (Number_toString W) provider
                                      @ '' '' @ ToString (Number_toString W) name))]),
                 (''unit_amount'', unit_amount_of W amount)]),
              (''quantity'', JNum (Fin 1))]]),
          (''metadata'', JObj [(''rateId'', rateId)]),
          (''success_url'', JStr (env_text W ''BASE_URL'' @ ''/shipping-success.html'')),
          (''cancel_url'', JStr (env_text W ''BASE_URL'' @ ''/shipping-cancelled.html''))])))))"

definition post_checkout_part0 :: "world \<Rightarrow> json \<Rightarrow> response io" where
  "post_checkout_part0 W req_body =
     io_catch
       (io_bind (io_lift (get_prop req_body ''orderToken'')) (\<lambda>orderToken.
        io_bind (io_lift (get_prop req_body ''rateId'')) (\<lambda>rateId.
          if \<not> truthy orderToken \<or> \<not> truthy rateId then
            io_return (res_json 400 (JObj [(''error'', JStr ''Missing orderToken or rateId'')]))
          else
            io_bind (shippoFetch W (''/orders/'' @ ToString (Number_toString W) orderToken) no_options) (\<lambda>order.
            io_bind (io_lift (and_then (get_prop order ''shipments'') index0)) (\<lambda>first.
            io_bind (shippoFetch W (''/shipments/'' @ ToString (Number_toString W) first) no_options) (\<lambda>shipment.
            io_bind (io_lift (and_then (get_prop shipment ''rates'') (array_find (rate_matches rateId)))) (\<lambda>rate.
              if \<not> truthy rate then
                io_return (res_json 400 (JObj [(''error'', JStr ''Invalid rate selected'')]))
              else
                io_bind (io_lift (session_params_part0 W rate rateId)) (\<lambda>params.
                io_bind (do_sessions_create W params) (\<lambda>session.
                io_bind (io_lift (get_prop session ''url'')) (\<lambda>url.
                  io_return (res_json 200 (JObj [(''url'', url)]))))))))))))
       (\<lambda>err. io_return (res_json 500
          (JObj [(''error'', JStr ''Checkout failed''), (''details'', JStr (message err))])))"

text \<open>The SDK file: the rate that \<open>find\<close> returns is used as it comes.\<close>

definition session_params_sdk :: "world \<Rightarrow> json \<Rightarrow> json \<Rightarrow> json \<Rightarrow> error + json" where
  "session_params_sdk W rate orderToken rateId =
     and_then (get_prop rate ''provider'') (\<lambda>provider.
     and_then (get_prop rate ''servicelevel'') (\<lambda>servicelevel.
     and_then (get_prop servicelevel ''name'') (\<lambda>name.
     and_then (get_prop rate ''amount'') (\<lambda>amount.
       Inr (JObj
         [(''mode'', JStr ''payment''),
          (''line_items'', JArr [JObj
             [(''price_data'', JObj
                [(''currency'', JStr ''usd''),
                 (''product_data'', JObj
                    [(''name'', JStr (''Shipping '' @ garbled_dash @ '' '' @ ToString (Number_toString W) provider
                                      @ '' '' @ ToString (Number_toString W) name))]),
                 (''unit_amount'', unit_amount_of W amount)]),
              (''quantity'', JNum (Fin 1))]]),
          (''metadata'', JObj [(''orderToken'', orderToken), (''rateId'', rateId)]),
          (''success_url'', JStr (env_text W ''BASE_URL'' @ ''/shipping-success.html'')),
          (''cancel_url'', JStr (env_text W ''BASE_URL'' @ ''/shipping-cancelled.html''))])))))"

definition post_checkout_sdk :: "world \<Rightarrow> json \<Rightarrow> response io" where
  "post_checkout_sdk W req_body =
     io_catch
       (io_bind (io_lift (get_prop req_body ''orderToken'')) (\<lambda>orderToken.
        io_bind (io_lift (get_prop req_body ''rateId'')) (\<lambda>rateId.
        io_bind (do_order_retrieve W orderToken) (\<lambda>order.
        io_bind (io_lift (and_then (get_prop order ''shipments'') index0)) (\<lambda>first.
        io_bind (do_shipment_retrieve W first) (\<lambda>shipment.
        io_bind (io_lift (and_then (get_prop shipment ''rates'') (array_find (rate_matches rateId)))) (\<lambda>rate.
        io_bind (io_lift (session_params_sdk W rate orderToken rateId)) (\<lambda>params.
        io_bind (do_sessions_create W params) (\<lambda>session.
        io_bind (io_lift (get_prop session ''url'')) (\<lambda>url.
          io_return (res_json 200 (JObj [(''url'', url)]))))))))))))
       (\<lambda>err. io_return (res_json 500 (JObj [(''error'', JStr ''Checkout failed'')])))"

text \<open>The file with the Zapier route: the price is \<open>req.body.amount\<close>.\<close>

definition session_params_zapier :: "world \<Rightarrow> json \<Rightarrow> json \<Rightarrow> json" where
  "session_params_zapier W rateId amount =
     JObj
       [(''mode'', JStr ''payment''),
        (''line_items'', JArr [JObj
           [(''price_data'', JObj
              [(''currency'', JStr ''usd''),
               (''product_data'', JObj [(''name'', JStr ''Shipping Charge'')]),
               (''unit_amount'', unit_amount_of W amount)]),
            (''quantity'', JNum (Fin 1))]]),
        (''metadata'', JObj [(''rateId'', rateId)]),
        (''success_url'', JStr (env_text W ''BASE_URL'' @ ''/success.html'')),
        (''cancel_url'', JStr (env_text W ''BASE_URL'' @ ''/cancel.html''))]"

definition post_checkout_zapier :: "world \<Rightarrow> json \<Rightarrow> response io" where
  "post_checkout_zapier W req_body =
     io_catch
       (io_bind (io_lift (get_prop req_body ''rateId'')) (\<lambda>rateId.
        io_bind (io_lift (get_prop req_body ''amount'')) (\<lambda>amount.
        io_bind (do_sessions_create W (session_params_zapier W rateId amount)) (\<lambda>session.
        io_bind (io_lift (get_prop session ''url'')) (\<lambda>url.
          io_return (res_json 200 (JObj [(''url'', url)])))))))
       (\<lambda>err. io_return (res_json 500 (JObj [(''error'', JStr (message err))])))"

section \<open>Payment webhook\<close>

definition label_request :: "json \<Rightarrow> json" where
  "label_request rateId =
     JObj [(''rate'', rateId), (''label_file_type'', JStr ''PDF''), (''async'', JBool False)]"

text \<open>\<open>event.data.object.metadata.rateId\<close>, each read throwing on a missing parent.\<close>

definition event_rateId :: "json \<Rightarrow> error + json" where
  "event_rateId event =
     and_then (get_prop event ''data'') (\<lambda>data.
     and_then (get_prop data ''object'') (\<lambda>session.
     and_then (get_prop session ''metadata'') (\<lambda>metadata.
       get_prop metadata ''rateId'')))"

definition is_completed :: "json \<Rightarrow> error + bool" where
  "is_completed event =
     and_then (get_prop event ''type'') (\<lambda>t. Inr (strict_eq t (JStr ''checkout.session.completed'')))"

definition received :: response where
  "received = res_json 200 (JObj [(''received'', JBool True)])"

text \<open>
  \<open>POST /webhook/stripe\<close> of server.js. Nothing catches what the label purchase throws:
  the handler's promise is rejected and the handler sends no response.
\<close>

definition webhook_stripe_server :: "world \<Rightarrow> webhook_request \<Rightarrow> response io" where
  "webhook_stripe_server W req =
     (case constructEvent W (raw_body req) (stripe_signature req) (process_env W ''STRIPE_WEBHOOK_SECRET'') of
        Inl err \<Rightarrow> io_return (res_send 400 ''Webhook Error'')
      | Inr event \<Rightarrow>
          io_bind (io_lift (is_completed event)) (\<lambda>completed.
          io_bind (if completed then
                     io_bind (io_lift (event_rateId event)) (\<lambda>rateId.
                     io_bind (shippoFetch W ''/transactions'' (post_json W (label_request rateId))) (\<lambda>_.
                       io_return ()))
                   else io_return ()) (\<lambda>_.
            io_return received)))"

text \<open>The second file catches the failure of the label purchase, and only that.\<close>

definition webhook_stripe_part0 :: "world \<Rightarrow> webhook_request \<Rightarrow> response io" where
  "webhook_stripe_part0 W req =
     (case constructEvent W (raw_body req) (stripe_signature req) (process_env W ''STRIPE_WEBHOOK_SECRET'') of
        Inl err \<Rightarrow> io_return (res_send 400 ''Webhook Error'')
      | Inr event \<Rightarrow>
          io_bind (io_lift (is_completed event)) (\<lambda>completed.
          io_bind (if completed then
                     io_bind (io_lift (event_rateId event)) (\<lambda>rateId.
                       io_catch
                         (io_bind (shippoFetch W ''/transactions'' (post_json W (label_request rateId))) (\<lambda>_.
                            io_return ()))
                         (\<lambda>err. io_return ()))
                   else io_return ()) (\<lambda>_.
            io_return received)))"

text \<open>The SDK file; \<open>orderToken\<close> is read from the metadata and not used.\<close>

definition webhook_stripe_sdk :: "world \<Rightarrow> webhook_request \<Rightarrow> response io" where
  "webhook_stripe_sdk W req =
     (case constructEvent W (raw_body req) (stripe_signature req) (process_env W ''STRIPE_WEBHOOK_SECRET'') of
        Inl err \<Rightarrow> io_return (res_send 400 ''Webhook Error'')
      | Inr event \<Rightarrow>
          io_bind (io_lift (is_completed event)) (\<lambda>completed.
          io_bind (if completed then
                     io_bind (io_lift (event_rateId event)) (\<lambda>rateId.
                     io_bind (do_transaction_create W (label_request rateId)) (\<lambda>_.
                       io_return ()))
                   else io_return ()) (\<lambda>_.
            io_return received)))"

text \<open>
  The file with the Zapier route: one \<open>try\<close> around everything. In this file
  \<open>app.use(express.json())\<close> comes before the route, so \<open>req.body\<close> of a JSON request
  is what that parser left, an object (\<open>Parsed\<close>), and not the raw bytes; the handler
  passes it on as it is.
\<close>

definition webhook_stripe_zapier :: "world \<Rightarrow> webhook_request \<Rightarrow> response io" where
  "webhook_stripe_zapier W req =
     io_catch
       (io_bind (io_lift (constructEvent W (raw_body req) (stripe_signature req)
                            (process_env W ''STRIPE_WEBHOOK_SECRET''))) (\<lambda>event.
        io_bind (io_lift (is_completed event)) (\<lambda>completed.
        io_bind (if completed then
                   io_bind (io_lift (event_rateId event)) (\<lambda>rateId.
                   io_bind (shippoFetch_zapier W ''/transactions/'' (post_json W (label_request rateId))) (\<lambda>_.
                     io_return ()))
                 else io_return ()) (\<lambda>_.
          io_return received))))
       (\<lambda>err. io_return (res_send 400 ''Webhook error''))"

section \<open>A concrete world\<close>

subsection \<open>Its engine\<close>

text \<open>
  The arithmetic of the concrete world is that of IEEE doubles: an exact result is
  rounded to the nearest double, a tie to the even significand, beyond the largest double
  to infinity, below the smallest to zero.
\<close>

definition pow2 :: "int \<Rightarrow> rat" where
  "pow2 e = (if 0 \<le> e then 2 ^ nat e else 1 / 2 ^ nat (- e))"

text \<open>The number of binary digits of a positive integer.\<close>

function bit_length :: "int \<Rightarrow> int" where
  "bit_length n = (if n \<le> 0 then 0 else 1 + bit_length (n div 2))"
  by pat_completeness auto
termination
  by (relation "measure nat") auto

declare bit_length.simps [simp del]

text \<open>For a positive \<open>a\<close>, the \<open>e\<close> with \<open>2^e \<le> a < 2^(e+1)\<close>.\<close>

definition binary_exponent :: "rat \<Rightarrow> int" where
  "binary_exponent a =
     (let k = bit_length (fst (quotient_of a)) - bit_length (snd (quotient_of a))
      in if pow2 k \<le> a then k else k - 1)"

definition round_half_even :: "rat \<Rightarrow> int" where
  "round_half_even x =
     (let f = \<lfloor>x\<rfloor>; r = x - of_int f
      in if r < 1 / 2 then f else if 1 / 2 < r then f + 1 else if even f then f else f + 1)"

text \<open>
  The double nearest to a rational: 53 binary digits from the exponent \<open>e\<close> down, the
  exponent not below -1022 (the subnormal numbers), and infinity from \<open>2^1024\<close> on.
\<close>

definition to_double :: "rat \<Rightarrow> jsnum" where
  "to_double q =
     (if q = 0 then Fin 0
      else
        let a = \<bar>q\<bar>; e = binary_exponent a
        in if 1023 < e then (if q < 0 then NInf else PInf)
           else
             let u = pow2 (max e (- 1022) - 52);
                 n = round_half_even (a / u)
             in if e = 1023 \<and> 2 ^ 53 \<le> n then (if q < 0 then NInf else PInf)
                else Fin (if q < 0 then - (of_int n * u) else of_int n * u))"

text \<open>
  \<open>Number(s)\<close> of a string follows the grammar of StringNumericLiteral: white space
  around an optional literal; the empty literal is 0; a literal is a signed decimal with
  optional fraction and exponent, \<open>Infinity\<close>, or an unsigned integer in base 16, 8 or 2;
  anything else is \<open>NaN\<close>. White space is the set of the language, in UTF-8: the ASCII
  spaces and line ends, U+00A0, U+1680, U+2000 to U+200A, U+2028, U+2029, U+202F, U+205F,
  U+3000 and U+FEFF.
\<close>

definition white_space :: "string list" where
  "white_space =
     [[CHR 0x20], [CHR 0x09], [CHR 0x0A], [CHR 0x0B], [CHR 0x0C], [CHR 0x0D],
      [CHR 0xC2, CHR 0xA0], [CHR 0xE1, CHR 0x9A, CHR 0x80],
      [CHR 0xE2, CHR 0x80, CHR 0x80], [CHR 0xE2, CHR 0x80, CHR 0x81], [CHR 0xE2, CHR 0x80, CHR 0x82],
      [CHR 0xE2, CHR 0x80, CHR 0x83], [CHR 0xE2, CHR 0x80, CHR 0x84], [CHR 0xE2, CHR 0x80, CHR 0x85],
      [CHR 0xE2, CHR 0x80, CHR 0x86], [CHR 0xE2, CHR 0x80, CHR 0x87], [CHR 0xE2, CHR 0x80, CHR 0x88],
      [CHR 0xE2, CHR 0x80, CHR 0x89], [CHR 0xE2, CHR 0x80, CHR 0x8A], [CHR 0xE2, CHR 0x80, CHR 0xA8],
      [CHR 0xE2, CHR 0x80, CHR 0xA9], [CHR 0xE2, CHR 0x80, CHR 0xAF], [CHR 0xE2, CHR 0x81, CHR 0x9F],
      [CHR 0xE3, CHR 0x80, CHR 0x80], [CHR 0xEF, CHR 0xBB, CHR 0xBF]]"

definition starts_with :: "string \<Rightarrow> string \<Rightarrow> bool" where
  "starts_with s w = (w \<noteq> [] \<and> take (length w) s = w)"

function strip_leading :: "string list \<Rightarrow> string \<Rightarrow> string" where
  "strip_leading ws s =
     (case find (starts_with s) ws of
        None \<Rightarrow> s
      | Some w \<Rightarrow> strip_leading ws (drop (length w) s))"
  by pat_completeness auto
termination
proof (relation "measure (\<lambda>(ws, s). length s)")
  show "wf (measure (\<lambda>(ws, s). length s))" by simp
next
  fix ws :: "string list" and s w :: string
  assume "find (starts_with s) ws = Some w"
  then have "starts_with s w" by (auto simp: find_Some_iff)
  then have "w \<noteq> []" and "take (length w) s = w" by (simp_all add: starts_with_def)
  then have "s \<noteq> []" by auto
  with \<open>w \<noteq> []\<close> show "((ws, drop (length w) s), (ws, s)) \<in> measure (\<lambda>(ws, s). length s)"
    by simp
qed

declare strip_leading.simps [simp del]

definition trim :: "string \<Rightarrow> string" where
  "trim s = rev (strip_leading (map rev white_space) (rev (strip_leading white_space s)))"

definition digit_of :: "char \<Rightarrow> nat option" where
  "digit_of = map_of
     [(CHR ''0'', 0), (CHR ''1'', 1), (CHR ''2'', 2), (CHR ''3'', 3), (CHR ''4'', 4),
      (CHR ''5'', 5), (CHR ''6'', 6), (CHR ''7'', 7), (CHR ''8'', 8), (CHR ''9'', 9),
      (CHR ''a'', 10), (CHR ''b'', 11), (CHR ''c'', 12), (CHR ''d'', 13), (CHR ''e'', 14),
      (CHR ''f'', 15), (CHR ''A'', 10), (CHR ''B'', 11), (CHR ''C'', 12), (CHR ''D'', 13),
      (CHR ''E'', 14), (CHR ''F'', 15)]"

definition is_digit :: "nat \<Rightarrow> char \<Rightarrow> bool" where
  "is_digit radix c = (case digit_of c of None \<Rightarrow> False | Some d \<Rightarrow> d < radix)"

text \<open>The value of a string of digits, most significant first.\<close>

definition digits_value :: "nat \<Rightarrow> string \<Rightarrow> int" where
  "digits_value radix ds = foldl (\<lambda>acc c. acc * int radix + int (the (digit_of c))) 0 ds"

definition all_digits :: "nat \<Rightarrow> string \<Rightarrow> bool" where
  "all_digits radix ds = (ds \<noteq> [] \<and> list_all (is_digit radix) ds)"

text \<open>ExponentPart, or nothing: the power of ten as an integer.\<close>

fun parse_exponent :: "string \<Rightarrow> int option" where
  "parse_exponent [] = Some 0"
| "parse_exponent (c # r) =
     (if c = CHR ''e'' \<or> c = CHR ''E'' then
        (case r of
           s # ds \<Rightarrow>
             (if s = CHR ''-'' then (if all_digits 10 ds then Some (- digits_value 10 ds) else None)
              else if s = CHR ''+'' then (if all_digits 10 ds then Some (digits_value 10 ds) else None)
              else if all_digits 10 r then Some (digits_value 10 r) else None)
         | [] \<Rightarrow> None)
      else None)"

definition pow10 :: "int \<Rightarrow> rat" where
  "pow10 e = (if 0 \<le> e then 10 ^ nat e else 1 / 10 ^ nat (- e))"

text \<open>StrUnsignedDecimalLiteral: the double nearest to the literal's value.\<close>

definition parse_unsigned :: "string \<Rightarrow> jsnum option" where
  "parse_unsigned s =
     (if s = ''Infinity'' then Some PInf
      else
        let ip = takeWhile (is_digit 10) s;
            r1 = dropWhile (is_digit 10) s;
            fp = (case r1 of c # t \<Rightarrow> (if c = CHR ''.'' then takeWhile (is_digit 10) t else []) | [] \<Rightarrow> []);
            r2 = (case r1 of c # t \<Rightarrow> (if c = CHR ''.'' then dropWhile (is_digit 10) t else r1) | [] \<Rightarrow> [])
        in if ip = [] \<and> fp = [] then None
           else (case parse_exponent r2 of
                   None \<Rightarrow> None
                 | Some e \<Rightarrow>
                     Some (to_double ((of_int (digits_value 10 ip)
                                       + of_int (digits_value 10 fp) / 10 ^ length fp) * pow10 e))))"

fun negate :: "jsnum \<Rightarrow> jsnum" where
  "negate NaN = NaN"
| "negate (Fin q) = Fin (- q)"
| "negate PInf = NInf"
| "negate NInf = PInf"

definition parse_prefixed :: "string \<Rightarrow> jsnum option" where
  "parse_prefixed s =
     (case s of
        z # x # ds \<Rightarrow>
          (if z \<noteq> CHR ''0'' then None
           else if x = CHR ''x'' \<or> x = CHR ''X'' then
             (if all_digits 16 ds then Some (to_double (of_int (digits_value 16 ds))) else None)
           else if x = CHR ''o'' \<or> x = CHR ''O'' then
             (if all_digits 8 ds then Some (to_double (of_int (digits_value 8 ds))) else None)
           else if x = CHR ''b'' \<or> x = CHR ''B'' then
             (if all_digits 2 ds then Some (to_double (of_int (digits_value 2 ds))) else None)
           else None)
      | _ \<Rightarrow> None)"

definition StringToNumber :: "string \<Rightarrow> jsnum" where
  "StringToNumber str =
     (let s = trim str in
      if s = [] then Fin 0
      else (case parse_prefixed s of
              Some n \<Rightarrow> n
            | None \<Rightarrow>
                (case s of
                   c # r \<Rightarrow>
                     (if c = CHR ''-'' then (case parse_unsigned r of Some n \<Rightarrow> negate n | None \<Rightarrow> NaN)
                      else if c = CHR ''+'' then (case parse_unsigned r of Some n \<Rightarrow> n | None \<Rightarrow> NaN)
                      else (case parse_unsigned s of Some n \<Rightarrow> n | None \<Rightarrow> NaN))
                 | [] \<Rightarrow> NaN)))"

text \<open>
  \<open>Number(v)\<close>. An array is converted through its string: the empty array is the empty
  string, an array of one element is that element's string (empty for \<open>null\<close> and
  \<open>undefined\<close>), and a longer one contains a comma, which no numeric literal does. An
  object's string is \<open>[object Object]\<close>.
\<close>

fun double_Number :: "json \<Rightarrow> jsnum" where
  "double_Number JUndefined = NaN"
| "double_Number JNull = Fin 0"
| "double_Number (JBool b) = (if b then Fin 1 else Fin 0)"
| "double_Number (JNum n) = n"
| "double_Number (JStr s) = StringToNumber s"
| "double_Number (JObj kvs) = NaN"
| "double_Number (JArr []) = Fin 0"
| "double_Number (JArr [x]) =
     (case x of
        JUndefined \<Rightarrow> Fin 0
      | JNull \<Rightarrow> Fin 0
      | JBool b \<Rightarrow> NaN
      | _ \<Rightarrow> double_Number x)"
| "double_Number (JArr (x # y # zs)) = NaN"

text \<open>
  The product of two numbers: the rounded product of two finite ones; with an infinity,
  \<open>NaN\<close> against zero and otherwise the infinity of the product's sign.
\<close>

fun is_negative :: "jsnum \<Rightarrow> bool" where
  "is_negative (Fin q) = (q < 0)"
| "is_negative NInf = True"
| "is_negative x = False"

fun double_multiply :: "jsnum \<Rightarrow> jsnum \<Rightarrow> jsnum" where
  "double_multiply NaN y = NaN"
| "double_multiply x NaN = NaN"
| "double_multiply (Fin a) (Fin b) = to_double (a * b)"
| "double_multiply x y =
     (if x = Fin 0 \<or> y = Fin 0 then NaN
      else if is_negative x = is_negative y then PInf else NInf)"

text \<open>\<open>Math.round\<close>: the nearest integer, a half rounding up; it is a double again.\<close>

fun double_Math_round :: "jsnum \<Rightarrow> jsnum" where
  "double_Math_round NaN = NaN"
| "double_Math_round (Fin q) = Fin (of_int \<lfloor>q + 1 / 2\<rfloor>)"
| "double_Math_round PInf = PInf"
| "double_Math_round NInf = NInf"

text \<open>
  The text of a number: the decimal expansion, which is what JavaScript prints for an
  integer below \<open>10^21\<close> and for a double with a short expansion, as 12.5.
\<close>

fun fraction_digits :: "nat \<Rightarrow> nat \<Rightarrow> nat \<Rightarrow> string" where
  "fraction_digits 0 n d = []"
| "fraction_digits (Suc fuel) n d =
     (if n = 0 then [] else (''0123456789'' ! ((n * 10) div d mod 10)) # fraction_digits fuel ((n * 10) mod d) d)"

definition number_text :: "jsnum \<Rightarrow> string" where
  "number_text x =
     (case x of
        NaN \<Rightarrow> ''NaN''
      | PInf \<Rightarrow> ''Infinity''
      | NInf \<Rightarrow> ''-Infinity''
      | Fin q \<Rightarrow>
          (let a = fst (quotient_of q); d = nat (snd (quotient_of q)); m = nat \<bar>a\<bar>
           in (if a < 0 then ''-'' else []) @ decimal (m div d)
              @ (if m mod d = 0 then [] else ''.'' @ fraction_digits 17 (m mod d) d)))"

subsection \<open>Its provider and its processor\<close>

text \<open>
  The scenario of the specification: order \<open>ORDER_1\<close> has the shipment \<open>SHIP_1\<close>, whose
  rates are the parameter \<open>rates\<close>, and order \<open>ORDER_0\<close> has no shipment; the provider
  answers a label purchase with the status \<open>label_status\<close>; the processor's library
  verifies the signature \<open>t=1,v1=valid\<close> over the raw bytes, and refuses a body that an
  earlier parser has replaced by an object, as the library does.
\<close>

definition RATE_A :: json where
  "RATE_A = JObj [(''object_id'', JStr ''RATE_A''), (''provider'', JStr ''UPS''),
                  (''servicelevel'', JObj [(''name'', JStr ''Ground'')]),
                  (''amount'', JStr ''12.50''), (''estimated_days'', JNum (Fin 3))]"

definition ORDER_1 :: json where
  "ORDER_1 = JObj [(''object_id'', JStr ''ORDER_1''), (''shipments'', JArr [JStr ''SHIP_1''])]"

definition ORDER_0 :: json where
  "ORDER_0 = JObj [(''object_id'', JStr ''ORDER_0''), (''shipments'', JArr [])]"

definition RATE_BAD :: json where
  "RATE_BAD = JObj [(''object_id'', JStr []), (''provider'', JStr ''UPS''),
                    (''servicelevel'', JObj [(''name'', JStr ''Ground'')]),
                    (''amount'', JStr ''-3.00''), (''estimated_days'', JNum (Fin 3))]"


definition SHIP_1 :: "json list \<Rightarrow> json" where
  "SHIP_1 rates = JObj [(''object_id'', JStr ''SHIP_1''), (''rates'', JArr rates)]"

definition completed_event :: json where
  "completed_event =
     JObj [(''id'', JStr ''evt_1''), (''type'', JStr ''checkout.session.completed''),
           (''data'', JObj [(''object'',
              JObj [(''id'', JStr ''cs_test_1''), (''metadata'', JObj [(''rateId'', JStr ''RATE_A'')])])])]"

definition http_json :: "nat \<Rightarrow> json \<Rightarrow> http_response" where
  "http_json st v =
     \<lparr>status = st,
      text_of = (case JSON_stringify number_text v of None \<Rightarrow> [] | Some t \<Rightarrow> t),
      json_of = Some v\<rparr>"

definition scenario_fetch :: "json list \<Rightarrow> nat \<Rightarrow> call list \<Rightarrow> string \<Rightarrow> fetch_options \<Rightarrow> error + http_response" where
  "scenario_fetch rates label_status h url init =
     (if url = ''https://api.goshippo.com/orders/ORDER_1'' then Inr (http_json 200 ORDER_1)
      else if url = ''https://api.goshippo.com/orders/ORDER_0'' then Inr (http_json 200 ORDER_0)
      else if url = ''https://api.goshippo.com/shipments/SHIP_1'' then Inr (http_json 200 (SHIP_1 rates))
      else if url = ''https://api.goshippo.com/transactions'' \<or> url = ''https://api.goshippo.com/transactions/'' then
        Inr (http_json label_status
               (if label_status = 201 then JObj [(''status'', JStr ''SUCCESS'')]
                else JObj [(''detail'', JStr ''Label purchase failed'')]))
      else Inr (http_json 404 (JObj [(''detail'', JStr ''Not found'')])))"

definition scenario :: "json list \<Rightarrow> nat \<Rightarrow> world" where
  "scenario rates label_status =
     \<lparr>fetch = scenario_fetch rates label_status,
      sessions_create = (\<lambda>h params. Inr (JObj [(''id'', JStr ''cs_test_1''),
                                             (''url'', JStr ''https://checkout.stripe.com/c/pay/cs_test_1'')])),
      transaction_create = (\<lambda>h params.
         if label_status = 201 then Inr (JObj [(''status'', JStr ''SUCCESS'')])
         else Inl (ShippoError ''Label purchase failed'')),
      order_retrieve = (\<lambda>h ref. if ref = JStr ''ORDER_1'' then Inr ORDER_1 else Inl (ShippoError ''Not found'')),
      shipment_retrieve = (\<lambda>h ref. if ref = JStr ''SHIP_1'' then Inr (SHIP_1 rates) else Inl (ShippoError ''Not found'')),
      constructEvent = (\<lambda>body sig secret.
         if sig = JStr ''t=1,v1=valid'' then
           (case body of
              Buffer bytes \<Rightarrow> Inr completed_event
            | Parsed v \<Rightarrow> Inl (StripeError ''Webhook payload must be provided as a string or a Buffer''))
         else Inl (StripeError ''No signatures found matching the expected signature for payload'')),
      process_env = map_of [(''SHIPPO_API_KEY'', ''shippo_test_key''),
                            (''STRIPE_WEBHOOK_SECRET'', ''whsec_test''),
                            (''BASE_URL'', ''https://shop.example'')],
      Number = double_Number,
      multiply = double_multiply,
      Math_round = double_Math_round,
      Number_toString = number_text\<rparr>"

section \<open>Vocabulary of the properties\<close>

text \<open>A value whose properties can be read without a TypeError.\<close>

definition readable :: "json \<Rightarrow> bool" where
  "readable v = (v \<noteq> JUndefined \<and> v \<noteq> JNull)"

text \<open>
  The normalized rate in the words of the specification: \<open>rate_id\<close> is \<open>object_id\<close>,
  \<open>carrier\<close> is \<open>provider\<close>, \<open>service\<close> is \<open>servicelevel.name\<close>, \<open>amount\<close> is the
  numeric value of the amount, \<open>eta\<close> is \<open>estimated_days\<close>.
\<close>

definition normalized_shape :: "world \<Rightarrow> json \<Rightarrow> json" where
  "normalized_shape W r =
     JObj [(''rate_id'', get_opt r ''object_id''),
           (''carrier'', get_opt r ''provider''),
           (''service'', get_opt (get_opt r ''servicelevel'') ''name''),
           (''amount'', JNum (Number W (get_opt r ''amount''))),
           (''eta'', get_opt r ''estimated_days'')]"

text \<open>A finite non-negative number, and a non-empty string.\<close>

fun nonneg_number :: "json \<Rightarrow> bool" where
  "nonneg_number (JNum (Fin q)) = (0 \<le> q)"
| "nonneg_number v = False"

fun nonempty_string :: "json \<Rightarrow> bool" where
  "nonempty_string (JStr s) = (s \<noteq> [])"
| "nonempty_string v = False"

text \<open>The \<open>customer\<close> object of the two rate routes that read the address optionally.\<close>

definition customer_server :: "json \<Rightarrow> json" where
  "customer_server order =
     JObj [(''name'', get_opt (get_opt order ''to_address'') ''name''),
           (''city'', get_opt (get_opt order ''to_address'') ''city''),
           (''state'', get_opt (get_opt order ''to_address'') ''state'')]"

definition customer_part0 :: "json \<Rightarrow> json" where
  "customer_part0 order =
     JObj [(''name'', if truthy (get_opt (get_opt order ''to_address'') ''name'')
                      then get_opt (get_opt order ''to_address'') ''name'' else JStr ''Customer''),
           (''city'', get_opt (get_opt order ''to_address'') ''city''),
           (''state'', get_opt (get_opt order ''to_address'') ''state'')]"


text \<open>\<open>params.line_items[0].price_data.unit_amount\<close> of a session request.\<close>

definition unit_amount_field :: "json \<Rightarrow> json" where
  "unit_amount_field params =
     get_opt (get_opt (case index0 (get_opt params ''line_items'') of Inl e \<Rightarrow> JUndefined | Inr item \<Rightarrow> item)
                ''price_data'') ''unit_amount''"

text \<open>The requests and the webhook deliveries of the scenario.\<close>

definition checkout_body :: "string \<Rightarrow> json" where
  "checkout_body rateId = JObj [(''orderToken'', JStr ''ORDER_1''), (''rateId'', JStr rateId)]"

definition signed_delivery :: webhook_request where
  "signed_delivery = \<lparr>stripe_signature = JStr ''t=1,v1=valid'', raw_body = Buffer ''{}''\<rparr>"

section \<open>Properties\<close>

subsection \<open>Sequencing\<close>

lemma io_bind_return: "io_bind (io_return x) k h = k x h"
  by (simp add: io_bind_def io_return_def)

lemma io_bind_lift_Inr: "io_bind (io_lift (Inr x)) k h = k x h"
  by (simp add: io_bind_def io_lift_def)

lemma io_bind_lift_Inl: "io_bind (io_lift (Inl e)) k h = (Inl e, h)"
  by (simp add: io_bind_def io_lift_def)

lemma io_bind_throw: "io_bind (io_throw e) k h = (Inl e, h)"
  by (simp add: io_bind_def io_throw_def)

lemma io_bind_Inr: "m h = (Inr x, h') \<Longrightarrow> io_bind m k h = k x h'"
  by (simp add: io_bind_def)

lemma io_bind_Inl: "m h = (Inl e, h') \<Longrightarrow> io_bind m k h = (Inl e, h')"
  by (simp add: io_bind_def)

lemma io_catch_Inr: "m h = (Inr x, h') \<Longrightarrow> io_catch m c h = (Inr x, h')"
  by (simp add: io_catch_def)

lemma io_catch_Inl: "m h = (Inl e, h') \<Longrightarrow> io_catch m c h = c e h'"
  by (simp add: io_catch_def)

lemmas io_simps = io_bind_return io_bind_lift_Inr io_bind_lift_Inl io_bind_throw

subsection \<open>Webhook: a signature that does not verify\<close>

text \<open>
  Claim C2. A webhook request whose signature is missing, malformed or does not verify is
  one for which \<open>stripe.webhooks.constructEvent\<close> throws. Every one of the four webhook
  handlers then answers 400 and leaves the history as it was: no outbound call is made,
  so no label is purchased.
\<close>

theorem invalid_signature_rejected:
  assumes "constructEvent W (raw_body req) (stripe_signature req)
             (process_env W ''STRIPE_WEBHOOK_SECRET'') = Inl err"
  shows "webhook_stripe_server W req h = (Inr (res_send 400 ''Webhook Error''), h)
       \<and> webhook_stripe_part0 W req h = (Inr (res_send 400 ''Webhook Error''), h)
       \<and> webhook_stripe_sdk W req h = (Inr (res_send 400 ''Webhook Error''), h)
       \<and> webhook_stripe_zapier W req h = (Inr (res_send 400 ''Webhook error''), h)"
  using assms
  by (simp add: webhook_stripe_server_def webhook_stripe_part0_def webhook_stripe_sdk_def
      webhook_stripe_zapier_def io_return_def io_catch_def io_bind_lift_Inl)

theorem invalid_signature_rejected_witness:
  "constructEvent (scenario [RATE_A] 201) (Buffer ''{}'') JUndefined
       (process_env (scenario [RATE_A] 201) ''STRIPE_WEBHOOK_SECRET'')
     = Inl (StripeError ''No signatures found matching the expected signature for payload'')
   \<and> webhook_stripe_server (scenario [RATE_A] 201)
        \<lparr>stripe_signature = JUndefined, raw_body = Buffer ''{}''\<rparr> []
     = (Inr \<lparr>code = 400, content = Text ''Webhook Error''\<rparr>, [])
   \<and> webhook_stripe_part0 (scenario [RATE_A] 201)
        \<lparr>stripe_signature = JUndefined, raw_body = Buffer ''{}''\<rparr> []
     = (Inr \<lparr>code = 400, content = Text ''Webhook Error''\<rparr>, [])
   \<and> webhook_stripe_sdk (scenario [RATE_A] 201)
        \<lparr>stripe_signature = JUndefined, raw_body = Buffer ''{}''\<rparr> []
     = (Inr \<lparr>code = 400, content = Text ''Webhook Error''\<rparr>, [])
   \<and> webhook_stripe_zapier (scenario [RATE_A] 201)
        \<lparr>stripe_signature = JUndefined, raw_body = Buffer ''{}''\<rparr> []
     = (Inr \<lparr>code = 400, content = Text ''Webhook error''\<rparr>, [])"
  using invalid_signature_rejected
    [of "scenario [RATE_A] 201" "\<lparr>stripe_signature = JUndefined, raw_body = Buffer ''{}''\<rparr>"
        "StripeError ''No signatures found matching the expected signature for payload''" "[]"]
  by (simp add: scenario_def res_send_def)

subsection \<open>The provider client\<close>

lemma map_of_assign: "map_of (assign xs kv) k = (if k = fst kv then Some (snd kv) else map_of xs k)"
  by (induction xs) auto

lemma map_of_spread:
  "k \<notin> fst ` set extra \<Longrightarrow> map_of (spread base extra) k = map_of base k"
  unfolding spread_def
  by (induction extra arbitrary: base) (auto simp: map_of_assign)

text \<open>
  Every call through either client is one \<open>fetch\<close>, with the headers of \<open>shippo_init\<close>;
  unless the caller passes an \<open>Authorization\<close> header of its own (no caller passes any
  header), the token is in them.
\<close>

lemma shippo_init_token:
  assumes "case opt_headers options of None \<Rightarrow> True | Some hs \<Rightarrow> ''Authorization'' \<notin> fst ` set hs"
  shows "\<exists>hs. opt_headers (shippo_init W options) = Some hs
            \<and> map_of hs ''Authorization'' = Some (''ShippoToken '' @ env_text W ''SHIPPO_API_KEY'')"
  using assms by (auto simp: shippo_init_def map_of_spread split: option.splits)

lemma shippoFetch_call:
  "snd (shippoFetch W path options h) = h @ [Fetch (SHIPPO_BASE @ path) (shippo_init W options)]"
  by (auto simp: shippoFetch_def io_bind_def do_fetch_def io_throw_def io_return_def
      split: sum.splits option.splits)

lemma shippoFetch_zapier_call:
  "snd (shippoFetch_zapier W path options h) = h @ [Fetch (SHIPPO_BASE @ path) (shippo_init W options)]"
  by (auto simp: shippoFetch_zapier_def io_bind_def do_fetch_def io_throw_def io_return_def
      split: sum.splits option.splits)

text \<open>In server.js a status outside 200..299 becomes an error with the status and the body.\<close>

lemma shippoFetch_not_ok:
  assumes "fetch W h (SHIPPO_BASE @ path) (shippo_init W options) = Inr res" "\<not> ok res"
  shows "shippoFetch W path options h =
     (Inl (ShippoError (''Shippo error '' @ decimal (status res) @ '': '' @ text_of res)),
      h @ [Fetch (SHIPPO_BASE @ path) (shippo_init W options)])"
  using assms by (simp add: shippoFetch_def io_bind_def do_fetch_def io_throw_def)

lemma shippoFetch_ok:
  assumes "fetch W h (SHIPPO_BASE @ path) (shippo_init W options) = Inr res" "ok res"
    "json_of res = Some data"
  shows "shippoFetch W path options h =
     (Inr data, h @ [Fetch (SHIPPO_BASE @ path) (shippo_init W options)])"
  using assms by (simp add: shippoFetch_def io_bind_def do_fetch_def io_return_def)

text \<open>In the file with the Zapier route a body that is not JSON hides even the body.\<close>

lemma shippoFetch_zapier_unparsable:
  assumes "fetch W h (SHIPPO_BASE @ path) (shippo_init W options) = Inr res" "json_of res = None"
  shows "shippoFetch_zapier W path options h =
     (Inl SyntaxError, h @ [Fetch (SHIPPO_BASE @ path) (shippo_init W options)])"
  using assms by (simp add: shippoFetch_zapier_def io_bind_def do_fetch_def io_throw_def)

text \<open>
  Claim C9. The token is attached by both clients, and the client of server.js (the same
  text is in the second file) turns a non-success status into an error that names the
  status and the body. The client of the file with the Zapier route does not: its error
  is the parsed body serialised again, so a 500 and a 502 with the same body give the
  same error, in which no status appears.
\<close>

theorem shippoFetch_zapier_drops_status:
  \<open>fst (shippoFetch_zapier (scenario [RATE_A] 500) ''/transactions/'' no_options [])
      = Inl (ShippoError ''{"detail":"Label purchase failed"}'')
   \<and> fst (shippoFetch_zapier (scenario [RATE_A] 502) ''/transactions/'' no_options [])
      = Inl (ShippoError ''{"detail":"Label purchase failed"}'')
   \<and> fst (shippoFetch (scenario [RATE_A] 500) ''/transactions'' no_options [])
      = Inl (ShippoError ''Shippo error 500: {"detail":"Label purchase failed"}'')\<close>
  by (simp add: shippoFetch_zapier_def shippoFetch_def io_bind_def do_fetch_def io_throw_def scenario_def
      scenario_fetch_def SHIPPO_BASE_def http_json_def ok_def quote_def escape_char_def join_def
      decimal.simps Let_def)

subsection \<open>Rate inquiry\<close>

lemma get_prop_readable: "readable v \<Longrightarrow> get_prop v k = Inr (get_opt v k)"
  by (cases v) (auto simp: readable_def)

lemma get_prop_Inr_readable: "get_prop v k = Inr x \<Longrightarrow> readable v"
  by (cases v) (auto simp: readable_def)

lemma normalize_rate_shape:
  assumes "readable r" "readable (get_opt r ''servicelevel'')"
  shows "normalize_rate W r = Inr (normalized_shape W r)"
  using assms by (simp add: normalize_rate_def normalized_shape_def and_then_def get_prop_readable)

lemma map_result_shape:
  assumes "\<forall>r\<in>set xs. readable r \<and> readable (get_opt r ''servicelevel'')"
  shows "map_result (normalize_rate W) xs = Inr (map (normalized_shape W) xs)"
  using assms by (induction xs) (simp_all add: normalize_rate_shape)

lemma extract_rates_shape:
  assumes "get_prop shipment ''rates'' = Inr (JArr xs)"
    "\<forall>r\<in>set xs. readable r \<and> readable (get_opt r ''servicelevel'')"
  shows "extract_rates W shipment = Inr (JArr (map (normalized_shape W) xs))"
  using assms by (simp add: extract_rates_def and_then_def map_result_shape)

text \<open>The engine of the concrete world on the numbers of the scenario.\<close>

lemma StringToNumber_12_50: "StringToNumber ''12.50'' = Fin (25 / 2)"
  by code_simp

lemma scenario_Number_12_50: "Number (scenario rates st) (JStr ''12.50'') = Fin (25 / 2)"
  by (simp add: scenario_def StringToNumber_12_50)

text \<open>The two routes that go through an order, when both fetches succeed.\<close>

lemma get_shipping_server_ok:
  assumes "shippoFetch W (''/orders/'' @ tok) no_options h = (Inr order, h1)"
    "get_prop order ''shipments'' = Inr (JArr (first # rest))"
    "shippoFetch W (''/shipments/'' @ ToString (Number_toString W) first) no_options h1 = (Inr shipment, h2)"
    "extract_rates W shipment = Inr rates"
  shows "get_shipping_server W tok h =
           (Inr (res_json 200 (JObj [(''customer'', customer_server order), (''rates'', rates)])), h2)"
proof -
  have "readable order" using assms(2) by (rule get_prop_Inr_readable)
  then have addr: "get_prop order ''to_address'' = Inr (get_opt order ''to_address'')"
    by (rule get_prop_readable)
  show ?thesis
    unfolding get_shipping_server_def using assms addr
    by (simp add: io_catch_def io_bind_def io_lift_def io_return_def
        and_then_def customer_server_def)
qed

lemma get_shipping_part0_ok:
  assumes "shippoFetch W (''/orders/'' @ tok) no_options h = (Inr order, h1)"
    "get_prop order ''shipments'' = Inr (JArr (first # rest))"
    "shippoFetch W (''/shipments/'' @ ToString (Number_toString W) first) no_options h1 = (Inr shipment, h2)"
    "extract_rates W shipment = Inr rates"
  shows "get_shipping_part0 W tok h =
           (Inr (res_json 200 (JObj [(''customer'', customer_part0 order), (''rates'', rates)])), h2)"
proof -
  have "readable order" using assms(2) by (rule get_prop_Inr_readable)
  then have addr: "get_prop order ''to_address'' = Inr (get_opt order ''to_address'')"
    by (rule get_prop_readable)
  show ?thesis
    unfolding get_shipping_part0_def using assms addr
    by (simp add: io_catch_def io_bind_def io_lift_def io_return_def
        and_then_def customer_part0_def)
qed

lemma get_shipping_zapier_ok:
  assumes "shippoFetch_zapier W (''/shipments/'' @ sessionId) no_options h = (Inr shipment, h1)"
    "extract_rates W shipment = Inr rates"
  shows "get_shipping_zapier W sessionId h = (Inr (res_json 200 (JObj [(''rates'', rates)])), h1)"
  unfolding get_shipping_zapier_def using assms
  by (simp add: io_catch_def io_bind_def io_lift_def io_return_def)

text \<open>The same two routes when the order has no shipment.\<close>

lemma get_shipping_server_none:
  assumes "shippoFetch W (''/orders/'' @ tok) no_options h = (Inr order, h1)"
    "get_prop order ''shipments'' = Inr s" "s = JUndefined \<or> s = JNull \<or> s = JArr []"
  shows "get_shipping_server W tok h =
    (Inr (res_json 404 (JObj [(''error'', JStr ''No shipment found'')])), h1)"
  unfolding get_shipping_server_def using assms
  by (auto simp: io_catch_def io_bind_def io_lift_def io_return_def and_then_def)

lemma get_shipping_part0_none:
  assumes "shippoFetch W (''/orders/'' @ tok) no_options h = (Inr order, h1)"
    "get_prop order ''shipments'' = Inr s" "s = JUndefined \<or> s = JNull \<or> s = JArr []"
  shows "get_shipping_part0 W tok h =
    (Inr (res_json 400 (JObj [(''error'', JStr ''Order has no shipments. Ensure parcels were added.'')])), h1)"
  unfolding get_shipping_part0_def using assms
  by (auto simp: io_catch_def io_bind_def io_lift_def io_return_def and_then_def)

text \<open>What the provider of the scenario answers.\<close>

lemma scenario_order:
  "shippoFetch (scenario rates st) (''/orders/'' @ ''ORDER_1'') no_options h =
     (Inr ORDER_1, h @ [Fetch ''https://api.goshippo.com/orders/ORDER_1''
                          (shippo_init (scenario rates st) no_options)])"
  by (simp add: shippoFetch_def io_bind_def do_fetch_def io_return_def scenario_def scenario_fetch_def
      SHIPPO_BASE_def http_json_def ok_def)

lemma scenario_order0:
  "shippoFetch (scenario rates st) (''/orders/'' @ ''ORDER_0'') no_options h =
     (Inr ORDER_0, h @ [Fetch ''https://api.goshippo.com/orders/ORDER_0''
                          (shippo_init (scenario rates st) no_options)])"
  by (simp add: shippoFetch_def io_bind_def do_fetch_def io_return_def scenario_def scenario_fetch_def
      SHIPPO_BASE_def http_json_def ok_def)

lemma scenario_shipment:
  "shippoFetch (scenario rates st)
     (''/shipments/'' @ ToString (Number_toString (scenario rates st)) (JStr ''SHIP_1'')) no_options h =
     (Inr (SHIP_1 rates), h @ [Fetch ''https://api.goshippo.com/shipments/SHIP_1''
                                 (shippo_init (scenario rates st) no_options)])"
  by (simp add: shippoFetch_def io_bind_def do_fetch_def io_return_def scenario_def scenario_fetch_def
      SHIPPO_BASE_def http_json_def ok_def)

lemma scenario_shipment_zapier:
  "shippoFetch_zapier (scenario rates st) (''/shipments/'' @ ''SHIP_1'') no_options h =
     (Inr (SHIP_1 rates), h @ [Fetch ''https://api.goshippo.com/shipments/SHIP_1''
                                 (shippo_init (scenario rates st) no_options)])"
  by (simp add: shippoFetch_zapier_def io_bind_def do_fetch_def io_return_def scenario_def scenario_fetch_def
      SHIPPO_BASE_def http_json_def ok_def)

lemma scenario_init:
  "shippo_init (scenario rates st) no_options =
     \<lparr>opt_method = None, opt_body = None,
      opt_headers = Some [(''Authorization'', ''ShippoToken shippo_test_key''),
                          (''Content-Type'', ''application/json'')]\<rparr>"
  by (simp add: shippo_init_def scenario_def no_options_def spread_def env_text_def)

lemma scenario_shipments: "get_prop ORDER_1 ''shipments'' = Inr (JArr (JStr ''SHIP_1'' # []))"
  by (simp add: ORDER_1_def)

lemma scenario_rates: "get_prop (SHIP_1 rates) ''rates'' = Inr (JArr rates)"
  by (simp add: SHIP_1_def)

lemma RATE_A_readable: "readable RATE_A \<and> readable (get_opt RATE_A ''servicelevel'')"
  by (simp add: RATE_A_def readable_def)







lemma StringToNumber_minus_3: "StringToNumber ''-3.00'' = Fin (- 3)"
  by code_simp

lemma RATE_BAD_readable: "readable RATE_BAD \<and> readable (get_opt RATE_BAD ''servicelevel'')"
  by (simp add: RATE_BAD_def readable_def)

lemma RATE_BAD_shape:
  "normalized_shape (scenario rates st) RATE_BAD =
     JObj [(''rate_id'', JStr []), (''carrier'', JStr ''UPS''), (''service'', JStr ''Ground''),
           (''amount'', JNum (Fin (- 3))), (''eta'', JNum (Fin 3))]"
  by (simp add: normalized_shape_def RATE_BAD_def scenario_def StringToNumber_minus_3)

text \<open>
  Claim C8, as stated, fails: the routes pass the provider's rate through without any
  check, so a rate with the amount \<open>-3.00\<close> and an empty \<open>object_id\<close> is returned with
  the amount -3 and an empty \<open>rate_id\<close>.
\<close>

theorem negative_amount_passes_through:
  "fst (get_shipping_server (scenario [RATE_BAD] 201) ''ORDER_1'' []) =
     Inr (res_json 200 (JObj
       [(''customer'', JObj [(''name'', JUndefined), (''city'', JUndefined), (''state'', JUndefined)]),
        (''rates'', JArr [JObj [(''rate_id'', JStr []), (''carrier'', JStr ''UPS''),
                                (''service'', JStr ''Ground''), (''amount'', JNum (Fin (- 3))),
                                (''eta'', JNum (Fin 3))]])]))
   \<and> \<not> nonneg_number (JNum (Fin (- 3))) \<and> \<not> nonempty_string (JStr [])"
proof -
  have r: "extract_rates (scenario [RATE_BAD] 201) (SHIP_1 [RATE_BAD]) =
             Inr (JArr (map (normalized_shape (scenario [RATE_BAD] 201)) [RATE_BAD]))"
    using RATE_BAD_readable by (simp add: extract_rates_shape scenario_rates)
  show ?thesis
    using get_shipping_server_ok [OF scenario_order scenario_shipments scenario_shipment r]
    by (simp add: RATE_BAD_shape customer_server_def ORDER_1_def)
qed

text \<open>
  Claim C8, amended. For a shipment with at least one rate, every entry of the returned
  list has a non-negative amount and a non-empty \<open>rate_id\<close> whenever every rate of the
  provider has a non-empty string \<open>object_id\<close> and an amount whose numeric value is a
  non-negative finite number.
\<close>

theorem rate_entries_follow_provider:
  assumes "shippoFetch W (''/orders/'' @ tok) no_options h = (Inr order, h1)"
    and "get_prop order ''shipments'' = Inr (JArr (first # rest))"
    and "shippoFetch W (''/shipments/'' @ ToString (Number_toString W) first) no_options h1 = (Inr shipment, h2)"
    and "get_prop shipment ''rates'' = Inr (JArr xs)"
    and "xs \<noteq> []"
    and "\<forall>r\<in>set xs. readable r \<and> readable (get_opt r ''servicelevel'')
            \<and> nonempty_string (get_opt r ''object_id'')
            \<and> nonneg_number (JNum (Number W (get_opt r ''amount'')))"
  shows "get_shipping_server W tok h =
           (Inr (res_json 200 (JObj [(''customer'', customer_server order),
                                     (''rates'', JArr (map (normalized_shape W) xs))])), h2)
       \<and> get_shipping_part0 W tok h =
           (Inr (res_json 200 (JObj [(''customer'', customer_part0 order),
                                     (''rates'', JArr (map (normalized_shape W) xs))])), h2)
       \<and> (\<forall>y\<in>set (map (normalized_shape W) xs).
             nonneg_number (get_opt y ''amount'') \<and> nonempty_string (get_opt y ''rate_id''))"
proof -
  have w: "\<forall>r\<in>set xs. readable r \<and> readable (get_opt r ''servicelevel'')"
    using assms(6) by blast
  have r: "extract_rates W shipment = Inr (JArr (map (normalized_shape W) xs))"
    using assms(4) w by (rule extract_rates_shape)
  have e: "\<forall>y\<in>set (map (normalized_shape W) xs).
             nonneg_number (get_opt y ''amount'') \<and> nonempty_string (get_opt y ''rate_id'')"
    using assms(6) by (auto simp: normalized_shape_def)
  show ?thesis
    using get_shipping_server_ok [OF assms(1,2,3) r] get_shipping_part0_ok [OF assms(1,2,3) r] e
    by simp
qed

theorem rate_entries_follow_provider_witness:
  "shippoFetch (scenario [RATE_A] 201) (''/orders/'' @ ''ORDER_1'') no_options [] =
     (Inr ORDER_1, [Fetch ''https://api.goshippo.com/orders/ORDER_1'' (shippo_init (scenario [RATE_A] 201) no_options)])
   \<and> get_prop ORDER_1 ''shipments'' = Inr (JArr [JStr ''SHIP_1''])
   \<and> get_prop (SHIP_1 [RATE_A]) ''rates'' = Inr (JArr [RATE_A])
   \<and> [RATE_A] \<noteq> []
   \<and> readable RATE_A \<and> readable (get_opt RATE_A ''servicelevel'')
   \<and> nonempty_string (get_opt RATE_A ''object_id'')
   \<and> nonneg_number (JNum (Number (scenario [RATE_A] 201) (get_opt RATE_A ''amount'')))
   \<and> fst (get_shipping_server (scenario [RATE_A] 201) ''ORDER_1'' []) =
       Inr (res_json 200 (JObj [(''customer'', customer_server ORDER_1),
                                (''rates'', JArr [normalized_shape (scenario [RATE_A] 201) RATE_A])]))
   \<and> nonneg_number (get_opt (normalized_shape (scenario [RATE_A] 201) RATE_A) ''amount'')
   \<and> nonempty_string (get_opt (normalized_shape (scenario [RATE_A] 201) RATE_A) ''rate_id'')"
proof -
  have c: "\<forall>r\<in>set [RATE_A]. readable r \<and> readable (get_opt r ''servicelevel'')
            \<and> nonempty_string (get_opt r ''object_id'')
            \<and> nonneg_number (JNum (Number (scenario [RATE_A] 201) (get_opt r ''amount'')))"
    using RATE_A_readable by (simp add: RATE_A_def scenario_Number_12_50)
  have d: "[RATE_A] \<noteq> []" by simp
  show ?thesis
    using rate_entries_follow_provider [OF scenario_order scenario_shipments scenario_shipment scenario_rates d c,
        where h = "[]"] scenario_order [of "[RATE_A]" 201 "[]"] scenario_shipments scenario_rates [of "[RATE_A]"] c
    by simp
qed

text \<open>
  Claim C5, as stated, fails: no route looks at the number of rates, so a shipment with
  zero rates is answered 200 with an empty list.
\<close>

theorem empty_rate_list_is_200:
  "fst (get_shipping_server (scenario [] 201) ''ORDER_1'' []) =
     Inr (res_json 200 (JObj
       [(''customer'', JObj [(''name'', JUndefined), (''city'', JUndefined), (''state'', JUndefined)]),
        (''rates'', JArr [])]))
   \<and> fst (get_shipping_part0 (scenario [] 201) ''ORDER_1'' []) =
     Inr (res_json 200 (JObj
       [(''customer'', JObj [(''name'', JStr ''Customer''), (''city'', JUndefined), (''state'', JUndefined)]),
        (''rates'', JArr [])]))
   \<and> fst (get_shipping_zapier (scenario [] 201) ''SHIP_1'' []) =
     Inr (res_json 200 (JObj [(''rates'', JArr [])]))"
proof -
  have r: "extract_rates (scenario [] 201) (SHIP_1 []) = Inr (JArr [])"
    by (simp add: extract_rates_def SHIP_1_def and_then_def)
  show ?thesis
    using get_shipping_server_ok [OF scenario_order scenario_shipments scenario_shipment r]
      get_shipping_part0_ok [OF scenario_order scenario_shipments scenario_shipment r]
      get_shipping_zapier_ok [OF scenario_shipment_zapier r]
    by (simp add: customer_server_def customer_part0_def ORDER_1_def)
qed

text \<open>
  Claim C5, amended. An order whose \<open>shipments\<close> are missing or empty is answered with
  a client error, 404 by server.js and 400 by the second file, and no shipment is fetched;
  a shipment with zero rates is answered 200 with an empty rate list by these two routes
  and by the route of the file with the Zapier route.
\<close>

theorem no_shipment_is_client_error:
  "(shippoFetch W (''/orders/'' @ tok) no_options h = (Inr order, h1)
      \<and> get_prop order ''shipments'' = Inr s \<and> (s = JUndefined \<or> s = JNull \<or> s = JArr [])
    \<longrightarrow> get_shipping_server W tok h =
          (Inr (res_json 404 (JObj [(''error'', JStr ''No shipment found'')])), h1)
      \<and> get_shipping_part0 W tok h =
          (Inr (res_json 400
             (JObj [(''error'', JStr ''Order has no shipments. Ensure parcels were added.'')])), h1))
   \<and> (shippoFetch W' (''/orders/'' @ tok') no_options h' = (Inr order', h1')
      \<and> get_prop order' ''shipments'' = Inr (JArr (first # rest))
      \<and> shippoFetch W' (''/shipments/'' @ ToString (Number_toString W') first) no_options h1' = (Inr shipment, h2')
      \<and> get_prop shipment ''rates'' = Inr (JArr [])
    \<longrightarrow> get_shipping_server W' tok' h' =
          (Inr (res_json 200 (JObj [(''customer'', customer_server order'), (''rates'', JArr [])])), h2')
      \<and> get_shipping_part0 W' tok' h' =
          (Inr (res_json 200 (JObj [(''customer'', customer_part0 order'), (''rates'', JArr [])])), h2'))
   \<and> (shippoFetch_zapier W'' (''/shipments/'' @ sessionId) no_options h'' = (Inr shipment'', h1'')
      \<and> get_prop shipment'' ''rates'' = Inr (JArr [])
    \<longrightarrow> get_shipping_zapier W'' sessionId h'' = (Inr (res_json 200 (JObj [(''rates'', JArr [])])), h1''))"
proof (intro conjI impI)
  assume a: "shippoFetch W (''/orders/'' @ tok) no_options h = (Inr order, h1)
      \<and> get_prop order ''shipments'' = Inr s \<and> (s = JUndefined \<or> s = JNull \<or> s = JArr [])"
  then show "get_shipping_server W tok h =
          (Inr (res_json 404 (JObj [(''error'', JStr ''No shipment found'')])), h1)"
    using get_shipping_server_none [of W tok h order h1 s] by blast
  from a show "get_shipping_part0 W tok h =
          (Inr (res_json 400
             (JObj [(''error'', JStr ''Order has no shipments. Ensure parcels were added.'')])), h1)"
    using get_shipping_part0_none [of W tok h order h1 s] by blast
next
  assume b: "shippoFetch W' (''/orders/'' @ tok') no_options h' = (Inr order', h1')
      \<and> get_prop order' ''shipments'' = Inr (JArr (first # rest))
      \<and> shippoFetch W' (''/shipments/'' @ ToString (Number_toString W') first) no_options h1' = (Inr shipment, h2')
      \<and> get_prop shipment ''rates'' = Inr (JArr [])"
  then have r: "extract_rates W' shipment = Inr (JArr [])"
    by (simp add: extract_rates_def and_then_def)
  from b r show "get_shipping_server W' tok' h' =
          (Inr (res_json 200 (JObj [(''customer'', customer_server order'), (''rates'', JArr [])])), h2')"
    using get_shipping_server_ok [of W' tok' h' order' h1' first rest shipment h2' "JArr []"] by blast
  from b r show "get_shipping_part0 W' tok' h' =
          (Inr (res_json 200 (JObj [(''customer'', customer_part0 order'), (''rates'', JArr [])])), h2')"
    using get_shipping_part0_ok [of W' tok' h' order' h1' first rest shipment h2' "JArr []"] by blast
next
  assume c: "shippoFetch_zapier W'' (''/shipments/'' @ sessionId) no_options h'' = (Inr shipment'', h1'')
      \<and> get_prop shipment'' ''rates'' = Inr (JArr [])"
  then have r: "extract_rates W'' shipment'' = Inr (JArr [])"
    by (simp add: extract_rates_def and_then_def)
  from c r show "get_shipping_zapier W'' sessionId h'' = (Inr (res_json 200 (JObj [(''rates'', JArr [])])), h1'')"
    using get_shipping_zapier_ok [of W'' sessionId h'' shipment'' h1'' "JArr []"] by blast
qed

theorem no_shipment_is_client_error_witness:
  "shippoFetch (scenario [] 201) (''/orders/'' @ ''ORDER_0'') no_options [] =
     (Inr ORDER_0, [Fetch ''https://api.goshippo.com/orders/ORDER_0'' (shippo_init (scenario [] 201) no_options)])
   \<and> get_prop ORDER_0 ''shipments'' = Inr (JArr [])
   \<and> fst (get_shipping_server (scenario [] 201) ''ORDER_0'' []) =
       Inr (res_json 404 (JObj [(''error'', JStr ''No shipment found'')]))
   \<and> fst (get_shipping_part0 (scenario [] 201) ''ORDER_0'' []) =
       Inr (res_json 400 (JObj [(''error'', JStr ''Order has no shipments. Ensure parcels were added.'')]))
   \<and> get_prop ORDER_1 ''shipments'' = Inr (JArr [JStr ''SHIP_1''])
   \<and> get_prop (SHIP_1 []) ''rates'' = Inr (JArr [])
   \<and> fst (get_shipping_server (scenario [] 201) ''ORDER_1'' []) =
       Inr (res_json 200 (JObj [(''customer'', customer_server ORDER_1), (''rates'', JArr [])]))
   \<and> fst (get_shipping_part0 (scenario [] 201) ''ORDER_1'' []) =
       Inr (res_json 200 (JObj [(''customer'', customer_part0 ORDER_1), (''rates'', JArr [])]))
   \<and> fst (get_shipping_zapier (scenario [] 201) ''SHIP_1'' []) =
       Inr (res_json 200 (JObj [(''rates'', JArr [])]))"
proof -
  let ?W = "scenario [] 201"
  let ?h0 = "[Fetch ''https://api.goshippo.com/orders/ORDER_0'' (shippo_init ?W no_options)]"
  let ?h1 = "[Fetch ''https://api.goshippo.com/orders/ORDER_1'' (shippo_init ?W no_options)]"
  let ?h2 = "?h1 @ [Fetch ''https://api.goshippo.com/shipments/SHIP_1'' (shippo_init ?W no_options)]"
  let ?h3 = "[Fetch ''https://api.goshippo.com/shipments/SHIP_1'' (shippo_init ?W no_options)]"
  have o0: "shippoFetch ?W (''/orders/'' @ ''ORDER_0'') no_options [] = (Inr ORDER_0, ?h0)"
    using scenario_order0 [of "[]" 201 "[]"] by simp
  have s0: "get_prop ORDER_0 ''shipments'' = Inr (JArr [])"
    by (simp add: ORDER_0_def)
  have o1: "shippoFetch ?W (''/orders/'' @ ''ORDER_1'') no_options [] = (Inr ORDER_1, ?h1)"
    using scenario_order [of "[]" 201 "[]"] by simp
  have f1: "shippoFetch ?W (''/shipments/'' @ ToString (Number_toString ?W) (JStr ''SHIP_1'')) no_options ?h1
              = (Inr (SHIP_1 []), ?h2)"
    using scenario_shipment [of "[]" 201 ?h1] by simp
  have z: "shippoFetch_zapier ?W (''/shipments/'' @ ''SHIP_1'') no_options [] = (Inr (SHIP_1 []), ?h3)"
    using scenario_shipment_zapier [of "[]" 201 "[]"] by simp
  note t = no_shipment_is_client_error
    [where W = ?W and tok = "''ORDER_0''" and h = "[]" and order = ORDER_0 and ?h1.0 = ?h0 and s = "JArr []"
       and W' = ?W and tok' = "''ORDER_1''" and h' = "[]" and order' = ORDER_1 and h1' = ?h1
       and first = "JStr ''SHIP_1''" and rest = "[]" and shipment = "SHIP_1 []" and h2' = ?h2
       and W'' = ?W and sessionId = "''SHIP_1''" and h'' = "[]" and shipment'' = "SHIP_1 []" and h1'' = ?h3]
  have a: "fst (get_shipping_server ?W ''ORDER_0'' []) =
       Inr (res_json 404 (JObj [(''error'', JStr ''No shipment found'')]))
     \<and> fst (get_shipping_part0 ?W ''ORDER_0'' []) =
       Inr (res_json 400 (JObj [(''error'', JStr ''Order has no shipments. Ensure parcels were added.'')]))"
    using t o0 s0 by simp
  have b: "fst (get_shipping_server ?W ''ORDER_1'' []) =
       Inr (res_json 200 (JObj [(''customer'', customer_server ORDER_1), (''rates'', JArr [])]))
     \<and> fst (get_shipping_part0 ?W ''ORDER_1'' []) =
       Inr (res_json 200 (JObj [(''customer'', customer_part0 ORDER_1), (''rates'', JArr [])]))"
    using t o1 f1 scenario_shipments scenario_rates [of "[]"] by simp
  have c: "fst (get_shipping_zapier ?W ''SHIP_1'' []) = Inr (res_json 200 (JObj [(''rates'', JArr [])]))"
    using t z scenario_rates [of "[]"] by simp
  show ?thesis
    using o0 s0 a b c scenario_shipments scenario_rates [of "[]"] by simp
qed

subsection \<open>Checkout\<close>

text \<open>The rate that \<open>find\<close> returns is a rate of the list, with the identifier asked for.\<close>

lemma find_first_member:
  assumes "find_first (rate_matches rateId) xs = Inr rate" "truthy rate"
  shows "rate \<in> set xs \<and> strict_eq (get_opt rate ''object_id'') rateId"
  using assms
proof (induction xs)
  case Nil
  then show ?case by simp
next
  case (Cons x xs)
  show ?case
  proof (cases "rate_matches rateId x")
    case (Inl e)
    with Cons.prems show ?thesis by simp
  next
    case (Inr b)
    then have rd: "readable x"
      by (cases x) (auto simp: rate_matches_def and_then_def readable_def)
    show ?thesis
    proof (cases b)
      case True
      with Inr Cons.prems have "rate = x" by simp
      moreover from Inr True rd have "strict_eq (get_opt x ''object_id'') rateId"
        by (simp add: rate_matches_def and_then_def get_prop_readable)
      ultimately show ?thesis by simp
    next
      case False
      with Inr Cons.prems have "find_first (rate_matches rateId) xs = Inr rate" by simp
      with Cons.IH Cons.prems(2) show ?thesis by simp
    qed
  qed
qed

lemma find_first_absent:
  assumes "\<forall>r\<in>set xs. readable r \<and> \<not> strict_eq (get_opt r ''object_id'') rateId"
  shows "find_first (rate_matches rateId) xs = Inr JUndefined"
  using assms by (induction xs) (auto simp: rate_matches_def and_then_def get_prop_readable)

text \<open>The session request carries the amount of the rate it was built from.\<close>

lemma session_params_server_amount:
  assumes "session_params_server W rate rateId = Inr params"
  shows "unit_amount_field params = unit_amount_of W (get_opt rate ''amount'')
       \<and> get_opt (get_opt params ''metadata'') ''rateId'' = rateId"
proof -
  from assms have r: "readable rate"
    by (cases rate) (auto simp: session_params_server_def and_then_def readable_def)
  from assms r show ?thesis
    by (auto simp: session_params_server_def and_then_def get_prop_readable unit_amount_field_def
        split: sum.splits)
qed

lemma session_params_part0_amount:
  assumes "session_params_part0 W rate rateId = Inr params"
  shows "unit_amount_field params = unit_amount_of W (get_opt rate ''amount'')
       \<and> get_opt (get_opt params ''metadata'') ''rateId'' = rateId"
proof -
  from assms have r: "readable rate"
    by (cases rate) (auto simp: session_params_part0_def and_then_def readable_def)
  from assms r show ?thesis
    by (auto simp: session_params_part0_def and_then_def get_prop_readable unit_amount_field_def
        split: sum.splits)
qed

text \<open>The routes of server.js and of the second file, step by step.\<close>

lemma post_checkout_server_ok:
  assumes "get_prop req_body ''orderToken'' = Inr orderToken"
    and "get_prop req_body ''rateId'' = Inr rateId"
    and "shippoFetch W (''/orders/'' @ ToString (Number_toString W) orderToken) no_options h = (Inr order, h1)"
    and "get_prop order ''shipments'' = Inr shipments"
    and "index0 shipments = Inr first"
    and "shippoFetch W (''/shipments/'' @ ToString (Number_toString W) first) no_options h1 = (Inr shipment, h2)"
    and "get_prop shipment ''rates'' = Inr rates"
    and "array_find (rate_matches rateId) rates = Inr rate"
    and "truthy rate"
    and "session_params_server W rate rateId = Inr params"
    and "sessions_create W h2 params = Inr session"
    and "get_prop session ''url'' = Inr url"
  shows "post_checkout_server W req_body h =
           (Inr (res_json 200 (JObj [(''url'', url)])), h2 @ [SessionsCreate params])"
  unfolding post_checkout_server_def using assms
  by (simp add: io_catch_def io_bind_def io_lift_def io_return_def and_then_def do_sessions_create_def)

lemma post_checkout_part0_ok:
  assumes "get_prop req_body ''orderToken'' = Inr orderToken"
    and "get_prop req_body ''rateId'' = Inr rateId"
    and "truthy orderToken" and "truthy rateId"
    and "shippoFetch W (''/orders/'' @ ToString (Number_toString W) orderToken) no_options h = (Inr order, h1)"
    and "get_prop order ''shipments'' = Inr shipments"
    and "index0 shipments = Inr first"
    and "shippoFetch W (''/shipments/'' @ ToString (Number_toString W) first) no_options h1 = (Inr shipment, h2)"
    and "get_prop shipment ''rates'' = Inr rates"
    and "array_find (rate_matches rateId) rates = Inr rate"
    and "truthy rate"
    and "session_params_part0 W rate rateId = Inr params"
    and "sessions_create W h2 params = Inr session"
    and "get_prop session ''url'' = Inr url"
  shows "post_checkout_part0 W req_body h =
           (Inr (res_json 200 (JObj [(''url'', url)])), h2 @ [SessionsCreate params])"
  unfolding post_checkout_part0_def using assms
  by (simp add: io_catch_def io_bind_def io_lift_def io_return_def and_then_def do_sessions_create_def)

lemma post_checkout_server_invalid:
  assumes "get_prop req_body ''orderToken'' = Inr orderToken"
    and "get_prop req_body ''rateId'' = Inr rateId"
    and "shippoFetch W (''/orders/'' @ ToString (Number_toString W) orderToken) no_options h = (Inr order, h1)"
    and "get_prop order ''shipments'' = Inr shipments"
    and "index0 shipments = Inr first"
    and "shippoFetch W (''/shipments/'' @ ToString (Number_toString W) first) no_options h1 = (Inr shipment, h2)"
    and "get_prop shipment ''rates'' = Inr rates"
    and "array_find (rate_matches rateId) rates = Inr rate"
    and "\<not> truthy rate"
  shows "post_checkout_server W req_body h =
           (Inr (res_json 400 (JObj [(''error'', JStr ''Invalid rate'')])), h2)"
  unfolding post_checkout_server_def using assms
  by (simp add: io_catch_def io_bind_def io_lift_def io_return_def and_then_def)

lemma post_checkout_part0_invalid:
  assumes "get_prop req_body ''orderToken'' = Inr orderToken"
    and "get_prop req_body ''rateId'' = Inr rateId"
    and "truthy orderToken" and "truthy rateId"
    and "shippoFetch W (''/orders/'' @ ToString (Number_toString W) orderToken) no_options h = (Inr order, h1)"
    and "get_prop order ''shipments'' = Inr shipments"
    and "index0 shipments = Inr first"
    and "shippoFetch W (''/shipments/'' @ ToString (Number_toString W) first) no_options h1 = (Inr shipment, h2)"
    and "get_prop shipment ''rates'' = Inr rates"
    and "array_find (rate_matches rateId) rates = Inr rate"
    and "\<not> truthy rate"
  shows "post_checkout_part0 W req_body h =
           (Inr (res_json 400 (JObj [(''error'', JStr ''Invalid rate selected'')])), h2)"
  unfolding post_checkout_part0_def using assms
  by (simp add: io_catch_def io_bind_def io_lift_def io_return_def and_then_def)

lemma post_checkout_part0_missing:
  assumes "readable req_body"
    and "\<not> truthy (get_opt req_body ''orderToken'') \<or> \<not> truthy (get_opt req_body ''rateId'')"
  shows "post_checkout_part0 W req_body h =
           (Inr (res_json 400 (JObj [(''error'', JStr ''Missing orderToken or rateId'')])), h)"
  unfolding post_checkout_part0_def using assms
  by (auto simp: io_catch_def io_bind_def io_lift_def io_return_def get_prop_readable)

lemma to_double_1250: "to_double 1250 = Fin 1250"
  by code_simp

lemma to_double_100: "to_double 100 = Fin 100"
  by code_simp

lemma unit_amount_12_50: "unit_amount_of (scenario rates st) (JStr ''12.50'') = JNum (Fin 1250)"
proof -
  have "\<lfloor>(1250 :: rat) + 1 / 2\<rfloor> = 1250"
    by (rule floor_unique) simp_all
  then show ?thesis
    by (simp add: unit_amount_of_def scenario_def StringToNumber_12_50 to_double_1250)
qed

lemma unit_amount_1: "unit_amount_of (scenario rates st) (JNum (Fin 1)) = JNum (Fin 100)"
proof -
  have "\<lfloor>(100 :: rat) + 1 / 2\<rfloor> = 100"
    by (rule floor_unique) simp_all
  then show ?thesis
    by (simp add: unit_amount_of_def scenario_def to_double_100)
qed

lemma checkout_server_charges_provider_rate:
  assumes "get_prop req_body ''orderToken'' = Inr orderToken"
    and "get_prop req_body ''rateId'' = Inr rateId"
    and "shippoFetch W (''/orders/'' @ ToString (Number_toString W) orderToken) no_options h = (Inr order, h1)"
    and "get_prop order ''shipments'' = Inr shipments"
    and "index0 shipments = Inr first"
    and "shippoFetch W (''/shipments/'' @ ToString (Number_toString W) first) no_options h1 = (Inr shipment, h2)"
    and "get_prop shipment ''rates'' = Inr (JArr xs)"
    and "array_find (rate_matches rateId) (JArr xs) = Inr rate"
    and "truthy rate"
    and "session_params_server W rate rateId = Inr params"
    and "sessions_create W h2 params = Inr session"
    and "get_prop session ''url'' = Inr url"
  shows "post_checkout_server W req_body h =
           (Inr (res_json 200 (JObj [(''url'', url)])), h2 @ [SessionsCreate params])
       \<and> rate \<in> set xs \<and> strict_eq (get_opt rate ''object_id'') rateId
       \<and> unit_amount_field params = unit_amount_of W (get_opt rate ''amount'')"
proof -
  from assms(8) have "find_first (rate_matches rateId) xs = Inr rate" by simp
  then have "rate \<in> set xs \<and> strict_eq (get_opt rate ''object_id'') rateId"
    using assms(9) by (rule find_first_member)
  then show ?thesis
    using post_checkout_server_ok [OF assms] session_params_server_amount [OF assms(10)] by simp
qed

lemma checkout_part0_charges_provider_rate:
  assumes "get_prop req_body ''orderToken'' = Inr orderToken"
    and "get_prop req_body ''rateId'' = Inr rateId"
    and "truthy orderToken" and "truthy rateId"
    and "shippoFetch W (''/orders/'' @ ToString (Number_toString W) orderToken) no_options h = (Inr order, h1)"
    and "get_prop order ''shipments'' = Inr shipments"
    and "index0 shipments = Inr first"
    and "shippoFetch W (''/shipments/'' @ ToString (Number_toString W) first) no_options h1 = (Inr shipment, h2)"
    and "get_prop shipment ''rates'' = Inr (JArr xs)"
    and "array_find (rate_matches rateId) (JArr xs) = Inr rate"
    and "truthy rate"
    and "session_params_part0 W rate rateId = Inr params"
    and "sessions_create W h2 params = Inr session"
    and "get_prop session ''url'' = Inr url"
  shows "post_checkout_part0 W req_body h =
           (Inr (res_json 200 (JObj [(''url'', url)])), h2 @ [SessionsCreate params])
       \<and> rate \<in> set xs \<and> strict_eq (get_opt rate ''object_id'') rateId
       \<and> unit_amount_field params = unit_amount_of W (get_opt rate ''amount'')"
proof -
  from assms(10) have "find_first (rate_matches rateId) xs = Inr rate" by simp
  then have "rate \<in> set xs \<and> strict_eq (get_opt rate ''object_id'') rateId"
    using assms(11) by (rule find_first_member)
  then show ?thesis
    using post_checkout_part0_ok [OF assms] session_params_part0_amount [OF assms(12)] by simp
qed

text \<open>The checkout of the scenario in server.js: the amount in the body is not read.\<close>

lemma scenario_checkout_server:
  "\<exists>params. post_checkout_server (scenario [RATE_A] 201)
       (JObj [(''orderToken'', JStr ''ORDER_1''), (''rateId'', JStr ''RATE_A''), (''amount'', JNum (Fin 1))]) []
     = (Inr (res_json 200 (JObj [(''url'', JStr ''https://checkout.stripe.com/c/pay/cs_test_1'')])),
        [Fetch ''https://api.goshippo.com/orders/ORDER_1'' (shippo_init (scenario [RATE_A] 201) no_options),
         Fetch ''https://api.goshippo.com/shipments/SHIP_1'' (shippo_init (scenario [RATE_A] 201) no_options),
         SessionsCreate params])
     \<and> unit_amount_field params = JNum (Fin 1250)"
proof -
  let ?W = "scenario [RATE_A] 201"
  let ?body = "JObj [(''orderToken'', JStr ''ORDER_1''), (''rateId'', JStr ''RATE_A''), (''amount'', JNum (Fin 1))]"
  have o: "shippoFetch ?W (''/orders/'' @ ToString (Number_toString ?W) (JStr ''ORDER_1'')) no_options []
           = (Inr ORDER_1, [Fetch ''https://api.goshippo.com/orders/ORDER_1'' (shippo_init ?W no_options)])"
    using scenario_order [of "[RATE_A]" 201 "[]"] by simp
  have i: "index0 (JArr [JStr ''SHIP_1'']) = Inr (JStr ''SHIP_1'')" by simp
  have f: "array_find (rate_matches (JStr ''RATE_A'')) (JArr [RATE_A]) = Inr RATE_A"
    by (simp add: rate_matches_def and_then_def RATE_A_def)
  have t: "truthy RATE_A" by (simp add: RATE_A_def)
  obtain params where p: "session_params_server ?W RATE_A (JStr ''RATE_A'') = Inr params"
    by (simp add: session_params_server_def and_then_def RATE_A_def)
  have c: "sessions_create ?W h params =
             Inr (JObj [(''id'', JStr ''cs_test_1''),
                        (''url'', JStr ''https://checkout.stripe.com/c/pay/cs_test_1'')])" for h
    by (simp add: scenario_def)
  have u: "get_prop (JObj [(''id'', JStr ''cs_test_1''),
                        (''url'', JStr ''https://checkout.stripe.com/c/pay/cs_test_1'')]) ''url''
           = Inr (JStr ''https://checkout.stripe.com/c/pay/cs_test_1'')" by simp
  have b1: "get_prop ?body ''orderToken'' = Inr (JStr ''ORDER_1'')" by simp
  have b2: "get_prop ?body ''rateId'' = Inr (JStr ''RATE_A'')" by simp
  have "unit_amount_field params = JNum (Fin 1250)"
    using session_params_server_amount [OF p] by (simp add: RATE_A_def unit_amount_12_50)
  then show ?thesis
    using post_checkout_server_ok [OF b1 b2 o scenario_shipments i scenario_shipment scenario_rates f t p c u]
    by auto
qed

text \<open>
  Claim C3. In server.js and in the second file the unit amount of the session is
  \<open>Math.round(rate.amount * 100)\<close> of the rate found in the rates fetched again from the
  provider (the two lemmas above). The checkout of the file with the Zapier route fetches
  nothing: it charges \<open>req.body.amount\<close>. A client that sends the amount 1 for \<open>RATE_A\<close>,
  which costs 12.50, gets a session of 100 cents instead of 1250.
\<close>

theorem checkout_zapier_uses_client_amount:
  "post_checkout_zapier (scenario [RATE_A] 201)
       (JObj [(''rateId'', JStr ''RATE_A''), (''amount'', JNum (Fin 1))]) []
     = (Inr (res_json 200 (JObj [(''url'', JStr ''https://checkout.stripe.com/c/pay/cs_test_1'')])),
        [SessionsCreate (session_params_zapier (scenario [RATE_A] 201) (JStr ''RATE_A'') (JNum (Fin 1)))])
   \<and> unit_amount_field (session_params_zapier (scenario [RATE_A] 201) (JStr ''RATE_A'') (JNum (Fin 1)))
     = JNum (Fin 100)
   \<and> unit_amount_of (scenario [RATE_A] 201) (get_opt RATE_A ''amount'') = JNum (Fin 1250)"
proof -
  let ?W = "scenario [RATE_A] 201"
  have c: "sessions_create ?W h p =
             Inr (JObj [(''id'', JStr ''cs_test_1''),
                        (''url'', JStr ''https://checkout.stripe.com/c/pay/cs_test_1'')])" for h p
    by (simp add: scenario_def)
  have a: "get_opt RATE_A ''amount'' = JStr ''12.50''"
    by (simp add: RATE_A_def)
  show ?thesis
    by (simp add: post_checkout_zapier_def io_catch_def io_bind_def io_lift_def io_return_def
        do_sessions_create_def c a unit_amount_field_def session_params_zapier_def
        unit_amount_12_50 unit_amount_1)
qed

text \<open>
  Claim C4. server.js and the second file answer a \<open>rateId\<close> that is not among the
  fetched rates with 400 and create no session. The SDK file has no such check: it reads
  \<open>rate.provider\<close> of \<open>undefined\<close>, and the TypeError is answered 500.
\<close>

theorem checkout_sdk_unknown_rate_is_500:
  "post_checkout_sdk (scenario [RATE_A] 201) (checkout_body ''NOPE'') []
     = (Inr (res_json 500 (JObj [(''error'', JStr ''Checkout failed'')])),
        [OrderRetrieve (JStr ''ORDER_1''), ShipmentRetrieve (JStr ''SHIP_1'')])
   \<and> fst (post_checkout_server (scenario [RATE_A] 201) (checkout_body ''NOPE'') [])
     = Inr (res_json 400 (JObj [(''error'', JStr ''Invalid rate'')]))"
proof -
  let ?W = "scenario [RATE_A] 201"
  have f: "array_find (rate_matches (JStr ''NOPE'')) (JArr [RATE_A]) = Inr JUndefined"
    by (simp add: rate_matches_def and_then_def RATE_A_def)
  have a: "post_checkout_sdk ?W (checkout_body ''NOPE'') []
     = (Inr (res_json 500 (JObj [(''error'', JStr ''Checkout failed'')])),
        [OrderRetrieve (JStr ''ORDER_1''), ShipmentRetrieve (JStr ''SHIP_1'')])"
    using f
    by (simp add: post_checkout_sdk_def checkout_body_def io_catch_def io_bind_def io_lift_def io_return_def
        do_order_retrieve_def do_shipment_retrieve_def scenario_def ORDER_1_def SHIP_1_def and_then_def
        session_params_sdk_def)
  have o: "shippoFetch ?W (''/orders/'' @ ToString (Number_toString ?W) (JStr ''ORDER_1'')) no_options []
           = (Inr ORDER_1, [Fetch ''https://api.goshippo.com/orders/ORDER_1'' (shippo_init ?W no_options)])"
    using scenario_order [of "[RATE_A]" 201 "[]"] by simp
  have i: "index0 (JArr [JStr ''SHIP_1'']) = Inr (JStr ''SHIP_1'')" by simp
  have u: "\<not> truthy JUndefined" by simp
  have b: "fst (post_checkout_server ?W (checkout_body ''NOPE'') [])
     = Inr (res_json 400 (JObj [(''error'', JStr ''Invalid rate'')]))"
    using post_checkout_server_invalid [OF _ _ o scenario_shipments i scenario_shipment scenario_rates f u,
        of "checkout_body ''NOPE''"]
    by (simp add: checkout_body_def)
  from a b show ?thesis by simp
qed

text \<open>
  Claim C6. The second file answers a body without \<open>orderToken\<close> or \<open>rateId\<close> with 400
  before any call. server.js has no such check: without \<open>orderToken\<close> it asks the
  provider for the order \<open>undefined\<close>, and the provider's 404 is answered 500.
\<close>

theorem checkout_server_missing_token_is_500:
  "post_checkout_server (scenario [RATE_A] 201) (JObj [(''rateId'', JStr ''RATE_A'')]) []
     = (Inr (res_json 500 (JObj [(''error'', JStr ''Checkout failed'')])),
        [Fetch ''https://api.goshippo.com/orders/undefined'' (shippo_init (scenario [RATE_A] 201) no_options)])"
  by (simp add: post_checkout_server_def io_catch_def io_bind_def io_lift_def io_return_def io_throw_def
      shippoFetch_def do_fetch_def scenario_def scenario_fetch_def SHIPPO_BASE_def http_json_def ok_def
      shippo_init_def)

lemma checkout_part0_missing_token_is_400:
  "post_checkout_part0 (scenario [RATE_A] 201) (JObj [(''rateId'', JStr ''RATE_A'')]) []
     = (Inr (res_json 400 (JObj [(''error'', JStr ''Missing orderToken or rateId'')])), [])"
  by (rule post_checkout_part0_missing) (simp_all add: readable_def)

subsection \<open>Webhook: a completed payment\<close>

lemma webhook_part0_acknowledges:
  assumes "constructEvent W (raw_body req) (stripe_signature req)
             (process_env W ''STRIPE_WEBHOOK_SECRET'') = Inr event"
    and "is_completed event = Inr True"
    and "event_rateId event = Inr rateId"
  shows "webhook_stripe_part0 W req h =
           (Inr received,
            h @ [Fetch (SHIPPO_BASE @ ''/transactions'') (shippo_init W (post_json W (label_request rateId)))])"
proof -
  obtain r h' where f: "shippoFetch W ''/transactions'' (post_json W (label_request rateId)) h = (r, h')"
    by (cases "shippoFetch W ''/transactions'' (post_json W (label_request rateId)) h")
  with shippoFetch_call [of W "''/transactions''" "post_json W (label_request rateId)" h]
  have h': "h' = h @ [Fetch (SHIPPO_BASE @ ''/transactions'') (shippo_init W (post_json W (label_request rateId)))]"
    by simp
  show ?thesis
    unfolding webhook_stripe_part0_def using assms f h'
    by (cases r) (simp_all add: io_bind_def io_lift_def io_return_def io_catch_def)
qed

lemma webhook_other_event:
  assumes "constructEvent W (raw_body req) (stripe_signature req)
             (process_env W ''STRIPE_WEBHOOK_SECRET'') = Inr event"
    and "is_completed event = Inr False"
  shows "webhook_stripe_server W req h = (Inr received, h)"
    and "webhook_stripe_part0 W req h = (Inr received, h)"
    and "webhook_stripe_sdk W req h = (Inr received, h)"
    and "webhook_stripe_zapier W req h = (Inr received, h)"
  using assms
  by (simp_all add: webhook_stripe_server_def webhook_stripe_part0_def webhook_stripe_sdk_def
      webhook_stripe_zapier_def io_bind_def io_lift_def io_return_def io_catch_def)

lemma webhook_server_label_ok:
  assumes "constructEvent W (raw_body req) (stripe_signature req)
             (process_env W ''STRIPE_WEBHOOK_SECRET'') = Inr event"
    and "is_completed event = Inr True"
    and "event_rateId event = Inr rateId"
    and "shippoFetch W ''/transactions'' (post_json W (label_request rateId)) h = (Inr label, h')"
  shows "webhook_stripe_server W req h = (Inr received, h')"
  using assms
  by (simp add: webhook_stripe_server_def io_bind_def io_lift_def io_return_def)

lemma webhook_server_label_failure:
  assumes "constructEvent W (raw_body req) (stripe_signature req)
             (process_env W ''STRIPE_WEBHOOK_SECRET'') = Inr event"
    and "is_completed event = Inr True"
    and "event_rateId event = Inr rateId"
    and "shippoFetch W ''/transactions'' (post_json W (label_request rateId)) h = (Inl err, h')"
  shows "webhook_stripe_server W req h = (Inl err, h')"
  using assms
  by (simp add: webhook_stripe_server_def io_bind_def io_lift_def io_return_def)

lemma scenario_event:
  "constructEvent (scenario rates st) (raw_body signed_delivery) (stripe_signature signed_delivery)
     (process_env (scenario rates st) ''STRIPE_WEBHOOK_SECRET'') = Inr completed_event"
  by (simp add: scenario_def signed_delivery_def)

lemma scenario_event_completed: "is_completed completed_event = Inr True"
  by (simp add: is_completed_def completed_event_def and_then_def)

lemma scenario_event_rateId: "event_rateId completed_event = Inr (JStr ''RATE_A'')"
  by (simp add: event_rateId_def completed_event_def and_then_def)

lemma scenario_label_init:
  \<open>shippo_init (scenario rates st) (post_json (scenario rates st) (label_request (JStr ''RATE_A''))) =
     \<lparr>opt_method = Some ''POST'',
      opt_body = Some ''{"rate":"RATE_A","label_file_type":"PDF","async":false}'',
      opt_headers = Some [(''Authorization'', ''ShippoToken shippo_test_key''),
                          (''Content-Type'', ''application/json'')]\<rparr>\<close>
  by (simp add: shippo_init_def post_json_def label_request_def scenario_def spread_def env_text_def
      quote_def escape_char_def join_def)

text \<open>
  In the file with the Zapier route \<open>express.json()\<close> is mounted before the webhook, so
  the handler never sees the raw bytes: the library refuses the parsed body, and a signed
  delivery is answered 400 with no call.
\<close>

lemma webhook_zapier_parsed_body:
  "webhook_stripe_zapier (scenario rates st)
     \<lparr>stripe_signature = JStr ''t=1,v1=valid'', raw_body = Parsed completed_event\<rparr> h
   = (Inr (res_send 400 ''Webhook error''), h)"
  by (simp add: webhook_stripe_zapier_def scenario_def io_catch_def io_bind_def io_lift_def io_return_def)

text \<open>
  Claim C1. For a verified \<open>checkout.session.completed\<close> event server.js and the second
  file issue one label purchase with the \<open>rateId\<close> of the metadata. When that purchase
  fails, the second file acknowledges with 200, as the claim says; in server.js nothing
  catches the error: the handler's promise is rejected and the handler sends no response.
\<close>

theorem webhook_label_failure_not_acknowledged:
  \<open>webhook_stripe_server (scenario [RATE_A] 500) signed_delivery [] =
     (Inl (ShippoError ''Shippo error 500: {"detail":"Label purchase failed"}''),
      [Fetch ''https://api.goshippo.com/transactions''
         \<lparr>opt_method = Some ''POST'',
          opt_body = Some ''{"rate":"RATE_A","label_file_type":"PDF","async":false}'',
          opt_headers = Some [(''Authorization'', ''ShippoToken shippo_test_key''),
                              (''Content-Type'', ''application/json'')]\<rparr>])
   \<and> webhook_stripe_part0 (scenario [RATE_A] 500) signed_delivery [] =
     (Inr (res_json 200 (JObj [(''received'', JBool True)])),
      [Fetch ''https://api.goshippo.com/transactions''
         \<lparr>opt_method = Some ''POST'',
          opt_body = Some ''{"rate":"RATE_A","label_file_type":"PDF","async":false}'',
          opt_headers = Some [(''Authorization'', ''ShippoToken shippo_test_key''),
                              (''Content-Type'', ''application/json'')]\<rparr>])\<close>
proof -
  let ?W = "scenario [RATE_A] 500"
  let ?init = "shippo_init ?W (post_json ?W (label_request (JStr ''RATE_A'')))"
  have f: \<open>shippoFetch ?W ''/transactions'' (post_json ?W (label_request (JStr ''RATE_A''))) [] =
      (Inl (ShippoError ''Shippo error 500: {"detail":"Label purchase failed"}''),
       [Fetch ''https://api.goshippo.com/transactions'' ?init])\<close>
    by (simp add: shippoFetch_def io_bind_def do_fetch_def io_throw_def scenario_def
        scenario_fetch_def SHIPPO_BASE_def http_json_def ok_def quote_def escape_char_def join_def
        decimal.simps Let_def)
  have a: \<open>webhook_stripe_server ?W signed_delivery [] =
      (Inl (ShippoError ''Shippo error 500: {"detail":"Label purchase failed"}''),
       [Fetch ''https://api.goshippo.com/transactions'' ?init])\<close>
    using webhook_server_label_failure
      [OF scenario_event [of "[RATE_A]" 500] scenario_event_completed scenario_event_rateId f] .
  have c: "webhook_stripe_part0 ?W signed_delivery [] =
      (Inr received, [Fetch ''https://api.goshippo.com/transactions'' ?init])"
    using webhook_part0_acknowledges
      [OF scenario_event [of "[RATE_A]" 500] scenario_event_completed scenario_event_rateId, of "[]"]
    by (simp add: SHIPPO_BASE_def)
  show ?thesis
    using a c by (simp add: scenario_label_init received_def)
qed

end
